theory Spec2Isabelle
  imports Complex_Main
begin

section \<open>The solver front-end as explicit state\<close>

text \<open>
  The notebook drives one global object, \<^verbatim>\<open>solver = pywraplp.Solver.CreateSolver("SCIP")\<close>,
  through \<^verbatim>\<open>IntVar\<close>, \<^verbatim>\<open>NumVar\<close>, \<^verbatim>\<open>Sum\<close>, \<^verbatim>\<open>Maximize\<close> and \<^verbatim>\<open>Add\<close>.
  That object is modelled as a record that every call takes and returns. A variable is
  identified by its position in the solver's variable list, which is how two variables
  created by two calls with the same name stay different objects.
  Numbers are real: the floating-point arithmetic of the solver is idealised.
\<close>

record mpvariable =
  var_lb :: real
  var_ub :: real
  var_integer :: bool
  var_name :: "string \<times> int"

datatype linexpr =
    LVar nat
  | ProductCst linexpr real
  | SumExpr linexpr linexpr
  | DiffExpr linexpr linexpr
  | SumArray "linexpr list"

datatype linconstraint =
    Le linexpr linexpr
  | Eq linexpr linexpr

record solver =
  variables :: "mpvariable list"
  constraints :: "linconstraint list"
  objective :: linexpr
  maximization :: bool

definition CreateSolver :: solver where
  "CreateSolver =
     \<lparr>variables = [], constraints = [], objective = SumArray [], maximization = False\<rparr>"

definition IntVar :: "real \<Rightarrow> real \<Rightarrow> string \<times> int \<Rightarrow> solver \<Rightarrow> nat \<times> solver" where
  "IntVar l u nm s =
     (length (variables s),
      s\<lparr>variables := variables s @
           [\<lparr>var_lb = l, var_ub = u, var_integer = True, var_name = nm\<rparr>]\<rparr>)"

definition NumVar :: "real \<Rightarrow> real \<Rightarrow> string \<times> int \<Rightarrow> solver \<Rightarrow> nat \<times> solver" where
  "NumVar l u nm s =
     (length (variables s),
      s\<lparr>variables := variables s @
           [\<lparr>var_lb = l, var_ub = u, var_integer = False, var_name = nm\<rparr>]\<rparr>)"

definition Add :: "linconstraint \<Rightarrow> solver \<Rightarrow> solver" where
  "Add c s = s\<lparr>constraints := constraints s @ [c]\<rparr>"

definition Maximize :: "linexpr \<Rightarrow> solver \<Rightarrow> solver" where
  "Maximize e s = s\<lparr>objective := e, maximization := True\<rparr>"

section \<open>Python dictionaries and exceptions\<close>

text \<open>
  \<^verbatim>\<open>KeyError\<close> is the only exception the notebook's own statements can raise.
  \<^verbatim>\<open>InvalidParameterError\<close> and \<^verbatim>\<open>UnsolvedModelError\<close> are the names the
  specification uses; no statement of the notebook raises them.
\<close>

datatype error = KeyError | InvalidParameterError | UnsolvedModelError

definition getitem :: "('k \<rightharpoonup> 'v) \<Rightarrow> 'k \<Rightarrow> error + 'v" where
  "getitem m k = (case m k of None \<Rightarrow> Inl KeyError | Some v \<Rightarrow> Inr v)"

definition bnd :: "error + 'a \<Rightarrow> ('a \<Rightarrow> error + 'b) \<Rightarrow> error + 'b" where
  "bnd r f = (case r of Inl e \<Rightarrow> Inl e | Inr x \<Rightarrow> f x)"

record vardicts =
  production :: "int \<rightharpoonup> nat"
  operating :: "int \<rightharpoonup> nat"
  start_up :: "int \<rightharpoonup> nat"
  shut_down :: "int \<rightharpoonup> nat"

section \<open>The cells that build the model\<close>

text \<open>
  \<^verbatim>\<open>
  production = dict.fromkeys(times)
  operating = dict.fromkeys(times)
  start_up = dict.fromkeys(times)
  shut_down = dict.fromkeys(times)
  for t in times:
      operating[t] = solver.IntVar(0, 1, f"operating_{t}")
      start_up[t] = solver.IntVar(0, 1, f"start_up_{t}")
      shut_down[t] = solver.IntVar(0, 1, f"shut_down_{t}")
      production[t] = solver.NumVar(0, PROD_MAX, f"production_{t}")
  \<close>
  \<^verbatim>\<open>dict.fromkeys\<close> fills every key of \<^verbatim>\<open>times\<close> with the placeholder \<^verbatim>\<open>None\<close>;
  the loop runs over the same \<^verbatim>\<open>times\<close> and overwrites each placeholder before any
  read, so the dictionaries start here as empty maps. The formatted name is kept as the
  pair of its prefix and the index.
\<close>

definition fromkeys :: vardicts where
  "fromkeys = \<lparr>production = Map.empty, operating = Map.empty,
               start_up = Map.empty, shut_down = Map.empty\<rparr>"

fun create_variables :: "int list \<Rightarrow> real \<Rightarrow> vardicts \<times> solver \<Rightarrow> vardicts \<times> solver" where
  "create_variables [] maxOutput (d, s) = (d, s)"
| "create_variables (t # ts) maxOutput (d, s) =
     (let (u, s1) = IntVar 0 1 (''operating_'', t) s;
          (v, s2) = IntVar 0 1 (''start_up_'', t) s1;
          (w, s3) = IntVar 0 1 (''shut_down_'', t) s2;
          (p, s4) = NumVar 0 maxOutput (''production_'', t) s3
      in create_variables ts maxOutput
           (d\<lparr>production := (production d)(t \<mapsto> p),
              operating := (operating d)(t \<mapsto> u),
              start_up := (start_up d)(t \<mapsto> v),
              shut_down := (shut_down d)(t \<mapsto> w)\<rparr>, s4))"

text \<open>
  \<^verbatim>\<open>
  obj_expr = [
      (PRICE[t] - PROD_COSTS[t]) * production[t]
      - START_UP_COSTS * start_up[t]
      for t in times
  ]
  solver.Maximize(solver.Sum(obj_expr))
  \<close>
\<close>

fun obj_expr ::
  "int list \<Rightarrow> (int \<rightharpoonup> real) \<Rightarrow> (int \<rightharpoonup> real) \<Rightarrow> real \<Rightarrow> vardicts \<Rightarrow> error + linexpr list" where
  "obj_expr [] marketPrice variableCost startUpCost d = Inr []"
| "obj_expr (t # ts) marketPrice variableCost startUpCost d =
     bnd (getitem marketPrice t) (\<lambda>price.
     bnd (getitem variableCost t) (\<lambda>cost.
     bnd (getitem (production d) t) (\<lambda>p.
     bnd (getitem (start_up d) t) (\<lambda>v.
     bnd (obj_expr ts marketPrice variableCost startUpCost d) (\<lambda>rest.
       Inr (DiffExpr (ProductCst (LVar p) (price - cost))
                     (ProductCst (LVar v) startUpCost) # rest))))))"

text \<open>
  \<^verbatim>\<open>
  for t in times:
      solver.Add(operating[t] * PROD_MIN <= production[t])
      solver.Add(production[t] <= operating[t] * PROD_MAX)
  \<close>
  A statement that raises leaves the solver as the statements before it left it, so
  each loop returns the solver together with its outcome.
\<close>

fun production_limits ::
  "int list \<Rightarrow> real \<Rightarrow> real \<Rightarrow> vardicts \<Rightarrow> solver \<Rightarrow> (error + unit) \<times> solver" where
  "production_limits [] minOutput maxOutput d s = (Inr (), s)"
| "production_limits (t # ts) minOutput maxOutput d s =
     (case bnd (getitem (operating d) t) (\<lambda>u.
           bnd (getitem (production d) t) (\<lambda>p.
             Inr (Le (ProductCst (LVar u) minOutput) (LVar p)))) of
        Inl e \<Rightarrow> (Inl e, s)
      | Inr c1 \<Rightarrow>
          (case bnd (getitem (production d) t) (\<lambda>p.
                bnd (getitem (operating d) t) (\<lambda>u.
                  Inr (Le (LVar p) (ProductCst (LVar u) maxOutput)))) of
             Inl e \<Rightarrow> (Inl e, Add c1 s)
           | Inr c2 \<Rightarrow> production_limits ts minOutput maxOutput d (Add c2 (Add c1 s))))"

text \<open>
  \<^verbatim>\<open>
  for t in times[1:]:
      solver.Add(operating[t] == operating[t - 1] + start_up[t] - shut_down[t])

  solver.Add(operating[1] == start_up[1])
  \<close>
  The loop below is run on \<^verbatim>\<open>times[1:]\<close>, the tail of the tuple (empty for an
  empty tuple).
\<close>

fun commitment_logic :: "int list \<Rightarrow> vardicts \<Rightarrow> solver \<Rightarrow> (error + unit) \<times> solver" where
  "commitment_logic [] d s = (Inr (), s)"
| "commitment_logic (t # ts) d s =
     (case bnd (getitem (operating d) t) (\<lambda>u.
           bnd (getitem (operating d) (t - 1)) (\<lambda>u'.
           bnd (getitem (start_up d) t) (\<lambda>v.
           bnd (getitem (shut_down d) t) (\<lambda>w.
             Inr (Eq (LVar u) (DiffExpr (SumExpr (LVar u') (LVar v)) (LVar w))))))) of
        Inl e \<Rightarrow> (Inl e, s)
      | Inr c \<Rightarrow> commitment_logic ts d (Add c s))"

definition first_period :: "vardicts \<Rightarrow> solver \<Rightarrow> (error + unit) \<times> solver" where
  "first_period d s =
     (case bnd (getitem (operating d) 1) (\<lambda>u.
           bnd (getitem (start_up d) 1) (\<lambda>v.
             Inr (Eq (LVar u) (LVar v)))) of
        Inl e \<Rightarrow> (Inl e, s)
      | Inr c \<Rightarrow> (Inr (), Add c s))"

text \<open>
  The cells in the order of the notebook, on the solver they find. The result is the
  four dictionaries, or the exception that stopped the run, and the solver as it was
  left.
\<close>

definition buildModel ::
  "int list \<Rightarrow> real \<Rightarrow> real \<Rightarrow> (int \<rightharpoonup> real) \<Rightarrow> real \<Rightarrow> (int \<rightharpoonup> real) \<Rightarrow> solver
     \<Rightarrow> (error + vardicts) \<times> solver" where
  "buildModel horizon minOutput maxOutput variableCost startUpCost marketPrice s =
     (let (d, s1) = create_variables horizon maxOutput (fromkeys, s) in
      case obj_expr horizon marketPrice variableCost startUpCost d of
        Inl e \<Rightarrow> (Inl e, s1)
      | Inr es \<Rightarrow>
          (let s2 = Maximize (SumArray es) s1 in
           case production_limits horizon minOutput maxOutput d s2 of
             (Inl e, s3) \<Rightarrow> (Inl e, s3)
           | (Inr _, s3) \<Rightarrow>
               (case commitment_logic (tl horizon) d s3 of
                  (Inl e, s4) \<Rightarrow> (Inl e, s4)
                | (Inr _, s4) \<Rightarrow>
                    (case first_period d s4 of
                       (Inl e, s5) \<Rightarrow> (Inl e, s5)
                     | (Inr _, s5) \<Rightarrow> (Inr d, s5)))))"

section \<open>The parameters of the notebook\<close>

definition times :: "int list" where
  "times = [1, 2, 3]"

definition PROD_MIN :: real where
  "PROD_MIN = 10"

definition PROD_MAX :: real where
  "PROD_MAX = 100"

definition PROD_COSTS :: "int \<rightharpoonup> real" where
  "PROD_COSTS = (\<lambda>t. if t \<in> set times then Some 120 else None)"

definition START_UP_COSTS :: real where
  "START_UP_COSTS = 10"

definition PRICE :: "int \<rightharpoonup> real" where
  "PRICE = [1 \<mapsto> 200, 2 \<mapsto> 100, 3 \<mapsto> 200]"

section \<open>What a solution of the model is\<close>

fun eval_expr :: "(nat \<Rightarrow> real) \<Rightarrow> linexpr \<Rightarrow> real" where
  "eval_expr a (LVar i) = a i"
| "eval_expr a (ProductCst e c) = eval_expr a e * c"
| "eval_expr a (SumExpr e1 e2) = eval_expr a e1 + eval_expr a e2"
| "eval_expr a (DiffExpr e1 e2) = eval_expr a e1 - eval_expr a e2"
| "eval_expr a (SumArray es) = sum_list (map (eval_expr a) es)"

fun holds :: "(nat \<Rightarrow> real) \<Rightarrow> linconstraint \<Rightarrow> bool" where
  "holds a (Le e1 e2) = (eval_expr a e1 \<le> eval_expr a e2)"
| "holds a (Eq e1 e2) = (eval_expr a e1 = eval_expr a e2)"

definition in_domain :: "mpvariable \<Rightarrow> real \<Rightarrow> bool" where
  "in_domain x r = (var_lb x \<le> r \<and> r \<le> var_ub x \<and> (var_integer x \<longrightarrow> r \<in> \<int>))"

definition feasible :: "solver \<Rightarrow> (nat \<Rightarrow> real) \<Rightarrow> bool" where
  "feasible s a =
     ((\<forall>i < length (variables s). in_domain (variables s ! i) (a i)) \<and>
      (\<forall>c \<in> set (constraints s). holds a c))"

definition Objective_Value :: "solver \<Rightarrow> (nat \<Rightarrow> real) \<Rightarrow> real" where
  "Objective_Value s a = eval_expr a (objective s)"

definition is_optimal :: "solver \<Rightarrow> (nat \<Rightarrow> real) \<Rightarrow> bool" where
  "is_optimal s a =
     (feasible s a \<and>
      (\<forall>a'. feasible s a' \<longrightarrow>
         (if maximization s then Objective_Value s a' \<le> Objective_Value s a
          else Objective_Value s a \<le> Objective_Value s a')))"

text \<open>
  Modelled from the spec: the external solver and its termination status. The solver is
  not code of the notebook; the specification gives its contract: a status out of six,
  and, with status Optimal or Feasible, an assignment of every variable. With Optimal the
  assignment is an optimal solution of the registered model, with Feasible a feasible one.
\<close>

datatype status = OPTIMAL | FEASIBLE | INFEASIBLE | UNBOUNDED | ABNORMAL | NOT_SOLVED

definition returned :: "solver \<Rightarrow> status \<Rightarrow> (nat \<Rightarrow> real) \<Rightarrow> bool" where
  "returned s st a =
     ((st = OPTIMAL \<and> is_optimal s a) \<or> (st = FEASIBLE \<and> feasible s a))"

section \<open>The cells that read the result\<close>

text \<open>
  After \<^verbatim>\<open>status = solver.Solve()\<close> the solver holds a value for every variable;
  \<^verbatim>\<open>solution_value()\<close> reads it. The status and these values are the solver's
  answer and are parameters here.
  \<^verbatim>\<open>
  if status == pywraplp.Solver.OPTIMAL:
      print("Objective value =", solver.Objective().Value())
  \<close>
\<close>

definition objective_output :: "status \<Rightarrow> solver \<Rightarrow> (nat \<Rightarrow> real) \<Rightarrow> real option" where
  "objective_output st s a = (if st = OPTIMAL then Some (Objective_Value s a) else None)"

text \<open>
  \<^verbatim>\<open>
  for t in times:
      print(production[t].solution_value())
  \<close>
  and the same loop for \<^verbatim>\<open>operating\<close>, \<^verbatim>\<open>start_up\<close> and \<^verbatim>\<open>shut_down\<close>. The
  printed lines are the list returned.
\<close>

fun solution_values :: "int list \<Rightarrow> (int \<rightharpoonup> nat) \<Rightarrow> (nat \<Rightarrow> real) \<Rightarrow> error + real list" where
  "solution_values [] dict a = Inr []"
| "solution_values (t # ts) dict a =
     bnd (getitem dict t) (\<lambda>x.
     bnd (solution_values ts dict a) (\<lambda>rest. Inr (a x # rest)))"

record schedule =
  objective_value :: "real option"
  production_values :: "real list"
  operating_values :: "real list"
  start_up_values :: "real list"
  shut_down_values :: "real list"

definition interpret_result ::
  "status \<Rightarrow> int list \<Rightarrow> vardicts \<Rightarrow> solver \<Rightarrow> (nat \<Rightarrow> real) \<Rightarrow> error + schedule" where
  "interpret_result st horizon d s a =
     bnd (solution_values horizon (production d) a) (\<lambda>ps.
     bnd (solution_values horizon (operating d) a) (\<lambda>us.
     bnd (solution_values horizon (start_up d) a) (\<lambda>vs.
     bnd (solution_values horizon (shut_down d) a) (\<lambda>ws.
       Inr \<lparr>objective_value = objective_output st s a,
            production_values = ps, operating_values = us,
            start_up_values = vs, shut_down_values = ws\<rparr>))))"

text \<open>
  The notebook from top to bottom, for an answer \<open>(st, a)\<close> of the solver: a fresh
  solver, the model of the parameters above, the printed values.
\<close>

definition notebook_solver :: solver where
  "notebook_solver =
     snd (buildModel times PROD_MIN PROD_MAX PROD_COSTS START_UP_COSTS PRICE CreateSolver)"

definition notebook :: "status \<Rightarrow> (nat \<Rightarrow> real) \<Rightarrow> error + schedule" where
  "notebook st a =
     (case buildModel times PROD_MIN PROD_MAX PROD_COSTS START_UP_COSTS PRICE CreateSolver of
        (Inl e, s) \<Rightarrow> Inl e
      | (Inr d, s) \<Rightarrow> interpret_result st times d s a)"

text \<open>
  Two assignments of the twelve variables of the notebook's model, in the order of their
  creation (operating, start-up, shut-down, production of periods 1, 2, 3). The first is
  the answer the notebook's output cells record: the objective line was printed, so the
  status was Optimal, and the value loops printed production 100.0, 0.0, 100.0, operation
  1.0, 0.0, 1.0, start-up 1.0, 0.0, 1.0 and shut-down -0.0, 1.0, 0.0. The second differs
  from it in the shut-down variable of period 1 only.
\<close>

definition printed_solution :: "nat \<Rightarrow> real" where
  "printed_solution i = [1, 1, 0, 100, 0, 0, 1, 0, 1, 1, 0, 100] ! i"



section \<open>The inputs the specification calls valid\<close>

text \<open>
  The notebook checks none of its parameters. The specification's data model is the
  hypothesis of the general theorems below: the horizon is \<open>(1, \<dots>, n)\<close> with
  \<open>n \<ge> 1\<close>, \<open>0 \<le> minOutput < maxOutput\<close>, \<open>0 \<le> startUpCost\<close>, and every
  index of the horizon has a variable cost \<open>\<ge> 0\<close> and a market price.
\<close>

definition valid_input ::
  "int list \<Rightarrow> real \<Rightarrow> real \<Rightarrow> (int \<rightharpoonup> real) \<Rightarrow> real \<Rightarrow> (int \<rightharpoonup> real) \<Rightarrow> bool" where
  "valid_input horizon minOutput maxOutput variableCost startUpCost marketPrice =
     (horizon \<noteq> [] \<and> horizon = [1..int (length horizon)] \<and>
      0 \<le> minOutput \<and> minOutput < maxOutput \<and> 0 \<le> startUpCost \<and>
      (\<forall>t \<in> set horizon.
         (case variableCost t of None \<Rightarrow> False | Some c \<Rightarrow> 0 \<le> c) \<and> marketPrice t \<noteq> None))"

section \<open>Closed form of the built model\<close>

text \<open>
  For a horizon \<open>(1, \<dots>, n)\<close> and a solver that already holds \<open>k\<close> variables, the
  creation loop gives period \<open>t\<close> the four consecutive positions
  \<open>k + 4 (t - 1), \<dots>, k + 4 (t - 1) + 3\<close>. The definitions below name these positions
  and the variables, constraints and objective terms built from them; the lemmas of the
  next sections prove that this is what \<open>buildModel\<close> computes.
\<close>

definition new_variables :: "real \<Rightarrow> int \<Rightarrow> mpvariable list" where
  "new_variables maxOutput t =
     [\<lparr>var_lb = 0, var_ub = 1, var_integer = True, var_name = (''operating_'', t)\<rparr>,
      \<lparr>var_lb = 0, var_ub = 1, var_integer = True, var_name = (''start_up_'', t)\<rparr>,
      \<lparr>var_lb = 0, var_ub = 1, var_integer = True, var_name = (''shut_down_'', t)\<rparr>,
      \<lparr>var_lb = 0, var_ub = maxOutput, var_integer = False, var_name = (''production_'', t)\<rparr>]"

definition u_var :: "nat \<Rightarrow> int \<Rightarrow> nat" where
  "u_var k t = k + 4 * nat (t - 1)"

definition v_var :: "nat \<Rightarrow> int \<Rightarrow> nat" where
  "v_var k t = k + 4 * nat (t - 1) + 1"

definition w_var :: "nat \<Rightarrow> int \<Rightarrow> nat" where
  "w_var k t = k + 4 * nat (t - 1) + 2"

definition p_var :: "nat \<Rightarrow> int \<Rightarrow> nat" where
  "p_var k t = k + 4 * nat (t - 1) + 3"

definition model_dicts :: "nat \<Rightarrow> int \<Rightarrow> vardicts" where
  "model_dicts k n =
     \<lparr>production = (\<lambda>t. if 1 \<le> t \<and> t \<le> n then Some (p_var k t) else None),
      operating = (\<lambda>t. if 1 \<le> t \<and> t \<le> n then Some (u_var k t) else None),
      start_up = (\<lambda>t. if 1 \<le> t \<and> t \<le> n then Some (v_var k t) else None),
      shut_down = (\<lambda>t. if 1 \<le> t \<and> t \<le> n then Some (w_var k t) else None)\<rparr>"

definition limit_constraints :: "nat \<Rightarrow> real \<Rightarrow> real \<Rightarrow> int \<Rightarrow> linconstraint list" where
  "limit_constraints k minOutput maxOutput t =
     [Le (ProductCst (LVar (u_var k t)) minOutput) (LVar (p_var k t)),
      Le (LVar (p_var k t)) (ProductCst (LVar (u_var k t)) maxOutput)]"

definition transition_constraint :: "nat \<Rightarrow> int \<Rightarrow> linconstraint" where
  "transition_constraint k t =
     Eq (LVar (u_var k t))
        (DiffExpr (SumExpr (LVar (u_var k (t - 1))) (LVar (v_var k t))) (LVar (w_var k t)))"

definition model_constraints :: "nat \<Rightarrow> int \<Rightarrow> real \<Rightarrow> real \<Rightarrow> linconstraint list" where
  "model_constraints k n minOutput maxOutput =
     concat (map (limit_constraints k minOutput maxOutput) [1..n]) @
     map (transition_constraint k) [2..n] @
     [Eq (LVar (u_var k 1)) (LVar (v_var k 1))]"

definition profit_term :: "nat \<Rightarrow> (int \<rightharpoonup> real) \<Rightarrow> (int \<rightharpoonup> real) \<Rightarrow> real \<Rightarrow> int \<Rightarrow> linexpr" where
  "profit_term k marketPrice variableCost startUpCost t =
     DiffExpr (ProductCst (LVar (p_var k t)) (the (marketPrice t) - the (variableCost t)))
              (ProductCst (LVar (v_var k t)) startUpCost)"

definition model_feasible :: "nat \<Rightarrow> int \<Rightarrow> real \<Rightarrow> real \<Rightarrow> (nat \<Rightarrow> real) \<Rightarrow> bool" where
  "model_feasible k n minOutput maxOutput a =
     ((\<forall>t \<in> {1..n}.
         (0 \<le> a (u_var k t) \<and> a (u_var k t) \<le> 1 \<and> a (u_var k t) \<in> \<int>) \<and>
         (0 \<le> a (v_var k t) \<and> a (v_var k t) \<le> 1 \<and> a (v_var k t) \<in> \<int>) \<and>
         (0 \<le> a (w_var k t) \<and> a (w_var k t) \<le> 1 \<and> a (w_var k t) \<in> \<int>) \<and>
         (0 \<le> a (p_var k t) \<and> a (p_var k t) \<le> maxOutput) \<and>
         a (u_var k t) * minOutput \<le> a (p_var k t) \<and>
         a (p_var k t) \<le> a (u_var k t) * maxOutput) \<and>
      (\<forall>t \<in> {2..n}. a (u_var k t) = a (u_var k (t - 1)) + a (v_var k t) - a (w_var k t)) \<and>
      a (u_var k 1) = a (v_var k 1))"

text \<open>The variables that occur in an expression and in a constraint.\<close>

fun vars_of :: "linexpr \<Rightarrow> nat set" where
  "vars_of (LVar i) = {i}"
| "vars_of (ProductCst e c) = vars_of e"
| "vars_of (SumExpr e1 e2) = vars_of e1 \<union> vars_of e2"
| "vars_of (DiffExpr e1 e2) = vars_of e1 \<union> vars_of e2"
| "vars_of (SumArray es) = (\<Union>e \<in> set es. vars_of e)"

fun mentions :: "nat \<Rightarrow> linconstraint \<Rightarrow> bool" where
  "mentions i (Le e1 e2) = (i \<in> vars_of e1 \<union> vars_of e2)"
| "mentions i (Eq e1 e2) = (i \<in> vars_of e1 \<union> vars_of e2)"

text \<open>
  The objective as the specification writes it:
  \<open>\<Sum>\<^sub>t (marketPrice[t] - variableCost[t]) \<cdot> production[t] - startUpCost \<cdot> startUp[t]\<close>,
  for per-period values of production and start-up.
\<close>

definition spec_objective ::
  "int list \<Rightarrow> (int \<Rightarrow> real) \<Rightarrow> (int \<Rightarrow> real) \<Rightarrow> real \<Rightarrow> (int \<Rightarrow> real) \<Rightarrow> (int \<Rightarrow> real) \<Rightarrow> real" where
  "spec_objective horizon marketPrice variableCost startUpCost productionAt startUpAt =
     (\<Sum>t\<leftarrow>horizon. (marketPrice t - variableCost t) * productionAt t - startUpCost * startUpAt t)"






section \<open>The model of the notebook's parameters\<close>

lemmas params = times_def PROD_MIN_def PROD_MAX_def PROD_COSTS_def START_UP_COSTS_def PRICE_def


lemma notebook_model:
  "buildModel times PROD_MIN PROD_MAX PROD_COSTS START_UP_COSTS PRICE CreateSolver =
   (Inr \<lparr>production = [1 \<mapsto> 3, 2 \<mapsto> 7, 3 \<mapsto> 11], operating = [1 \<mapsto> 0, 2 \<mapsto> 4, 3 \<mapsto> 8],
          start_up = [1 \<mapsto> 1, 2 \<mapsto> 5, 3 \<mapsto> 9], shut_down = [1 \<mapsto> 2, 2 \<mapsto> 6, 3 \<mapsto> 10]\<rparr>,
    \<lparr>variables =
     [\<lparr>var_lb = 0, var_ub = 1, var_integer = True, var_name = (''operating_'', 1)\<rparr>,
      \<lparr>var_lb = 0, var_ub = 1, var_integer = True, var_name = (''start_up_'', 1)\<rparr>,
      \<lparr>var_lb = 0, var_ub = 1, var_integer = True, var_name = (''shut_down_'', 1)\<rparr>,
      \<lparr>var_lb = 0, var_ub = 100, var_integer = False, var_name = (''production_'', 1)\<rparr>,
      \<lparr>var_lb = 0, var_ub = 1, var_integer = True, var_name = (''operating_'', 2)\<rparr>,
      \<lparr>var_lb = 0, var_ub = 1, var_integer = True, var_name = (''start_up_'', 2)\<rparr>,
      \<lparr>var_lb = 0, var_ub = 1, var_integer = True, var_name = (''shut_down_'', 2)\<rparr>,
      \<lparr>var_lb = 0, var_ub = 100, var_integer = False, var_name = (''production_'', 2)\<rparr>,
      \<lparr>var_lb = 0, var_ub = 1, var_integer = True, var_name = (''operating_'', 3)\<rparr>,
      \<lparr>var_lb = 0, var_ub = 1, var_integer = True, var_name = (''start_up_'', 3)\<rparr>,
      \<lparr>var_lb = 0, var_ub = 1, var_integer = True, var_name = (''shut_down_'', 3)\<rparr>,
      \<lparr>var_lb = 0, var_ub = 100, var_integer = False, var_name = (''production_'', 3)\<rparr>],
     constraints =
       [Le (ProductCst (LVar 0) 10) (LVar 3),
        Le (LVar 3) (ProductCst (LVar 0) 100),
        Le (ProductCst (LVar 4) 10) (LVar 7),
        Le (LVar 7) (ProductCst (LVar 4) 100),
        Le (ProductCst (LVar 8) 10) (LVar 11),
        Le (LVar 11) (ProductCst (LVar 8) 100),
        Eq (LVar 4) (DiffExpr (SumExpr (LVar 0) (LVar 5)) (LVar 6)),
        Eq (LVar 8) (DiffExpr (SumExpr (LVar 4) (LVar 9)) (LVar 10)),
        Eq (LVar 0) (LVar 1)],
     objective =
       SumArray
        [DiffExpr (ProductCst (LVar 3) 80) (ProductCst (LVar 1) 10),
         DiffExpr (ProductCst (LVar 7) (- 20)) (ProductCst (LVar 5) 10),
         DiffExpr (ProductCst (LVar 11) 80) (ProductCst (LVar 9) 10)],
     maximization = True\<rparr>)"
  by (simp add: buildModel_def params CreateSolver_def fromkeys_def IntVar_def NumVar_def
      Add_def Maximize_def getitem_def bnd_def first_period_def numeral_eq_Suc)

lemma notebook_feasible:
  "feasible notebook_solver a \<longleftrightarrow>
     (0 \<le> a 0 \<and> a 0 \<le> 1 \<and> a 0 \<in> \<int>) \<and> (0 \<le> a 1 \<and> a 1 \<le> 1 \<and> a 1 \<in> \<int>) \<and>
     (0 \<le> a 2 \<and> a 2 \<le> 1 \<and> a 2 \<in> \<int>) \<and> (0 \<le> a 3 \<and> a 3 \<le> 100) \<and>
     (0 \<le> a 4 \<and> a 4 \<le> 1 \<and> a 4 \<in> \<int>) \<and> (0 \<le> a 5 \<and> a 5 \<le> 1 \<and> a 5 \<in> \<int>) \<and>
     (0 \<le> a 6 \<and> a 6 \<le> 1 \<and> a 6 \<in> \<int>) \<and> (0 \<le> a 7 \<and> a 7 \<le> 100) \<and>
     (0 \<le> a 8 \<and> a 8 \<le> 1 \<and> a 8 \<in> \<int>) \<and> (0 \<le> a 9 \<and> a 9 \<le> 1 \<and> a 9 \<in> \<int>) \<and>
     (0 \<le> a 10 \<and> a 10 \<le> 1 \<and> a 10 \<in> \<int>) \<and> (0 \<le> a 11 \<and> a 11 \<le> 100) \<and>
     a 0 * 10 \<le> a 3 \<and> a 3 \<le> a 0 * 100 \<and>
     a 4 * 10 \<le> a 7 \<and> a 7 \<le> a 4 * 100 \<and>
     a 8 * 10 \<le> a 11 \<and> a 11 \<le> a 8 * 100 \<and>
     a 4 = a 0 + a 5 - a 6 \<and> a 8 = a 4 + a 9 - a 10 \<and> a 0 = a 1"
  unfolding notebook_solver_def notebook_model feasible_def
  by (simp add: All_less_Suc numeral_eq_Suc in_domain_def conj_ac)


lemma notebook_objective:
  "Objective_Value notebook_solver a =
     (a 3 * 80 - a 1 * 10) + (a 7 * (- 20) - a 5 * 10) + (a 11 * 80 - a 9 * 10)"
  unfolding notebook_solver_def notebook_model Objective_Value_def
  by simp

lemma notebook_upper_bound:
  assumes "feasible notebook_solver a"
  shows "Objective_Value notebook_solver a \<le> 15980"
proof -
  from assms have f:
    "a 3 \<le> a 0 * 100" "a 0 = a 1" "a 0 \<le> 1" "a 4 * 10 \<le> a 7" "a 11 \<le> a 8 * 100"
    "a 8 = a 4 + a 9 - a 10" "a 8 \<le> 1" "0 \<le> a 10" "0 \<le> a 5" "0 \<le> a 4"
    unfolding notebook_feasible by simp_all
  have "a 3 * 80 - a 1 * 10 \<le> 7990"
    using f(1-3) by linarith
  moreover have "(a 7 * (- 20) - a 5 * 10) + (a 11 * 80 - a 9 * 10) \<le> 7990"
    using f(4-10) by linarith
  ultimately show ?thesis
    unfolding notebook_objective by linarith
qed


lemma printed_solution_feasible: "feasible notebook_solver printed_solution"
  unfolding notebook_feasible by (simp add: printed_solution_def)


lemma notebook_maximization: "maximization notebook_solver"
  unfolding notebook_solver_def notebook_model by simp

lemma printed_solution_optimal: "is_optimal notebook_solver printed_solution"
  unfolding is_optimal_def
  using printed_solution_feasible notebook_upper_bound notebook_maximization
  by (simp add: notebook_objective printed_solution_def)



lemma notebook_interpret:
  "notebook st a =
     Inr \<lparr>objective_value = objective_output st notebook_solver a,
          production_values = [a 3, a 7, a 11], operating_values = [a 0, a 4, a 8],
          start_up_values = [a 1, a 5, a 9], shut_down_values = [a 2, a 6, a 10]\<rparr>"
  unfolding notebook_def notebook_solver_def notebook_model
  by (simp add: interpret_result_def times_def bnd_def getitem_def)


lemma printed_solution_returned: "returned notebook_solver OPTIMAL printed_solution"
  using printed_solution_optimal by (simp add: returned_def)





lemma notebook_valid_input:
  "valid_input times PROD_MIN PROD_MAX PROD_COSTS START_UP_COSTS PRICE"
  by (simp add: valid_input_def params upto_rec1)

lemma notebook_build:
  "buildModel times PROD_MIN PROD_MAX PROD_COSTS START_UP_COSTS PRICE CreateSolver =
     (fst (buildModel times PROD_MIN PROD_MAX PROD_COSTS START_UP_COSTS PRICE CreateSolver),
      notebook_solver)"
  by (simp add: notebook_solver_def)

section \<open>The model built from any valid input\<close>

lemma create_variables_solver:
  "snd (create_variables ts M (d, s)) =
     s\<lparr>variables := variables s @ concat (map (new_variables M) ts)\<rparr>"
  by (induction ts arbitrary: d s) (simp_all add: IntVar_def NumVar_def new_variables_def)

lemma create_variables_upto:
  "production (fst (create_variables [i..j] M (d, s))) t =
     (if i \<le> t \<and> t \<le> j then Some (length (variables s) + 4 * nat (t - i) + 3) else production d t) \<and>
   operating (fst (create_variables [i..j] M (d, s))) t =
     (if i \<le> t \<and> t \<le> j then Some (length (variables s) + 4 * nat (t - i)) else operating d t) \<and>
   start_up (fst (create_variables [i..j] M (d, s))) t =
     (if i \<le> t \<and> t \<le> j then Some (length (variables s) + 4 * nat (t - i) + 1) else start_up d t) \<and>
   shut_down (fst (create_variables [i..j] M (d, s))) t =
     (if i \<le> t \<and> t \<le> j then Some (length (variables s) + 4 * nat (t - i) + 2) else shut_down d t)"
proof (induction i j arbitrary: d s rule: upto.induct)
  case (1 i j)
  show ?case
  proof (cases "i \<le> j")
    case False
    then show ?thesis by auto
  next
    case True
    then have rec: "[i..j] = i # [i + 1..j]"
      by (rule upto_rec1)
    show ?thesis
      unfolding rec using True
      by (auto simp add: IntVar_def NumVar_def 1 nat_diff_distrib simp del: upto.simps)
  qed
qed

lemma create_variables_dicts:
  "fst (create_variables [1..n] M (fromkeys, s)) = model_dicts (length (variables s)) n"
  by (rule vardicts.equality)
    (auto simp add: create_variables_upto model_dicts_def fromkeys_def
      u_var_def v_var_def w_var_def p_var_def)

lemma create_variables_valid:
  "create_variables [1..n] M (fromkeys, s) =
     (model_dicts (length (variables s)) n,
      s\<lparr>variables := variables s @ concat (map (new_variables M) [1..n])\<rparr>)"
  using create_variables_dicts [of n M s] create_variables_solver [of "[1..n]" M fromkeys s]
  by (simp add: prod_eq_iff)

lemma obj_expr_valid:
  assumes "\<forall>t \<in> set ts. marketPrice t \<noteq> None \<and> variableCost t \<noteq> None \<and> 1 \<le> t \<and> t \<le> n"
  shows "obj_expr ts marketPrice variableCost startUpCost (model_dicts k n) =
           Inr (map (profit_term k marketPrice variableCost startUpCost) ts)"
  using assms
  by (induction ts) (auto simp add: bnd_def getitem_def model_dicts_def profit_term_def)

lemma production_limits_valid:
  assumes "\<forall>t \<in> set ts. 1 \<le> t \<and> t \<le> n"
  shows "production_limits ts minOutput maxOutput (model_dicts k n) s =
           (Inr (), s\<lparr>constraints := constraints s @
                        concat (map (limit_constraints k minOutput maxOutput) ts)\<rparr>)"
  using assms
  by (induction ts arbitrary: s)
    (auto simp add: bnd_def getitem_def model_dicts_def limit_constraints_def Add_def)

lemma commitment_logic_valid:
  assumes "\<forall>t \<in> set ts. 2 \<le> t \<and> t \<le> n"
  shows "commitment_logic ts (model_dicts k n) s =
           (Inr (), s\<lparr>constraints := constraints s @ map (transition_constraint k) ts\<rparr>)"
  using assms
  by (induction ts arbitrary: s)
    (auto simp add: bnd_def getitem_def model_dicts_def transition_constraint_def Add_def)

lemma first_period_valid:
  assumes "1 \<le> n"
  shows "first_period (model_dicts k n) s =
           (Inr (), s\<lparr>constraints := constraints s @ [Eq (LVar (u_var k 1)) (LVar (v_var k 1))]\<rparr>)"
  using assms
  by (simp add: first_period_def bnd_def getitem_def model_dicts_def Add_def)

lemma buildModel_valid:
  assumes n: "1 \<le> n"
    and params: "\<forall>t \<in> set [1..n]. marketPrice t \<noteq> None \<and> variableCost t \<noteq> None"
  shows "buildModel [1..n] minOutput maxOutput variableCost startUpCost marketPrice s =
           (Inr (model_dicts (length (variables s)) n),
            s\<lparr>variables := variables s @ concat (map (new_variables maxOutput) [1..n]),
              constraints := constraints s @
                model_constraints (length (variables s)) n minOutput maxOutput,
              objective := SumArray (map (profit_term (length (variables s))
                             marketPrice variableCost startUpCost) [1..n]),
              maximization := True\<rparr>)"
proof -
  from n have tl: "tl [1..n] = [2..n]"
    by (simp add: upto_rec1 [of 1 n])
  from params have p: "\<forall>t \<in> set [1..n]. marketPrice t \<noteq> None \<and> variableCost t \<noteq> None \<and> 1 \<le> t \<and> t \<le> n"
    by simp
  show ?thesis
    unfolding buildModel_def create_variables_valid tl
    by (simp add: obj_expr_valid [OF p] production_limits_valid commitment_logic_valid
        first_period_valid [OF n] Maximize_def model_constraints_def del: upto.simps)
qed

lemma valid_input_upto:
  assumes "valid_input horizon minOutput maxOutput variableCost startUpCost marketPrice"
  obtains n where "1 \<le> n" and "horizon = [1..n]"
    and "\<forall>t \<in> set [1..n]. marketPrice t \<noteq> None \<and> variableCost t \<noteq> None"
proof -
  let ?n = "int (length horizon)"
  from assms have h: "horizon \<noteq> []" "horizon = [1..?n]"
    by (simp_all add: valid_input_def)
  from h(1) have "1 \<le> ?n"
    by (cases horizon) simp_all
  moreover from assms have "\<forall>t \<in> set horizon. marketPrice t \<noteq> None \<and> variableCost t \<noteq> None"
    by (auto simp add: valid_input_def split: option.splits)
  with h(2) have "\<forall>t \<in> set [1..?n]. marketPrice t \<noteq> None \<and> variableCost t \<noteq> None"
    by simp
  ultimately show thesis
    using h(2) that by blast
qed

lemma concat_blocks_nth:
  assumes "\<And>x. length (f x) = m" and "q < length xs" and "c < m"
  shows "concat (map f xs) ! (m * q + c) = f (xs ! q) ! c"
  using assms(2)
proof (induction xs arbitrary: q)
  case Nil
  then show ?case by simp
next
  case (Cons x xs)
  show ?case
  proof (cases q)
    case 0
    with assms(1,3) show ?thesis by (simp add: nth_append)
  next
    case (Suc q')
    with Cons.prems have "q' < length xs" by simp
    from Cons.IH [OF this] Suc assms(1) show ?thesis
      by (simp add: nth_append add.assoc)
  qed
qed

lemma concat_blocks_length:
  assumes "\<And>x. length (f x) = m"
  shows "length (concat (map f xs)) = m * length xs"
  by (induction xs) (simp_all add: assms)

lemma new_variables_length: "length (new_variables M t) = 4"
  by (simp add: new_variables_def)

lemma length_new_variables_upto: "length (concat (map (new_variables M) [1..n])) = 4 * nat n"
  using concat_blocks_length [of "new_variables M" 4 "[1..n]"]
  by (simp add: new_variables_length)

lemma new_variables_upto_nth:
  assumes "1 \<le> t" and "t \<le> n" and "c < 4"
  shows "concat (map (new_variables M) [1..n]) ! (4 * nat (t - 1) + c) = new_variables M t ! c"
proof -
  from assms have q: "nat (t - 1) < length [1..n]"
    by simp
  from assms have "[1..n] ! nat (t - 1) = t"
    by simp
  with concat_blocks_nth [of "new_variables M" 4 "nat (t - 1)" "[1..n]" c, OF new_variables_length q assms(3)]
  show ?thesis by simp
qed

lemma feasible_extend:
  "feasible (s\<lparr>variables := variables s @ vs, constraints := constraints s @ cs,
              objective := e, maximization := b\<rparr>) a \<longleftrightarrow>
     feasible s a \<and>
     (\<forall>i < length vs. in_domain (vs ! i) (a (length (variables s) + i))) \<and>
     (\<forall>c \<in> set cs. holds a c)"
proof -
  have split: "\<And>P. (\<forall>i < length (variables s) + length vs. P i) \<longleftrightarrow>
      (\<forall>i < length (variables s). P i) \<and> (\<forall>i < length vs. P (length (variables s) + i))"
  proof (intro iffI conjI allI impI)
    fix P i
    assume all: "(\<forall>i < length (variables s). P i) \<and> (\<forall>i < length vs. P (length (variables s) + i))"
      and i: "i < length (variables s) + length vs"
    show "P i"
    proof (cases "i < length (variables s)")
      case True
      with all show ?thesis by simp
    next
      case False
      with i have "i - length (variables s) < length vs" by simp
      with all have "P (length (variables s) + (i - length (variables s)))" by blast
      with False show ?thesis by simp
    qed
  qed simp_all
  show ?thesis
    unfolding feasible_def
    by (auto simp add: split nth_append ball_Un)
qed

lemma new_variables_nth:
  "new_variables M t ! 0 = \<lparr>var_lb = 0, var_ub = 1, var_integer = True, var_name = (''operating_'', t)\<rparr>"
  "new_variables M t ! 1 = \<lparr>var_lb = 0, var_ub = 1, var_integer = True, var_name = (''start_up_'', t)\<rparr>"
  "new_variables M t ! 2 = \<lparr>var_lb = 0, var_ub = 1, var_integer = True, var_name = (''shut_down_'', t)\<rparr>"
  "new_variables M t ! 3 = \<lparr>var_lb = 0, var_ub = M, var_integer = False, var_name = (''production_'', t)\<rparr>"
  by (simp_all add: new_variables_def)

lemma slot_in_range:
  assumes "1 \<le> t" and "t \<le> n" and "c < 4"
  shows "4 * nat (t - 1) + c < 4 * nat n"
proof -
  from assms(1,2) have "nat (t - 1) + 1 \<le> nat n"
    by simp
  then have "4 * nat (t - 1) + 4 \<le> 4 * nat n"
    by simp
  with assms(3) show ?thesis
    by simp
qed

lemma slot_domains:
  assumes "1 \<le> t" and "t \<le> n"
  shows "(\<forall>c < 4. in_domain (concat (map (new_variables M) [1..n]) ! (4 * nat (t - 1) + c))
                     (a (k + (4 * nat (t - 1) + c)))) \<longleftrightarrow>
       (0 \<le> a (u_var k t) \<and> a (u_var k t) \<le> 1 \<and> a (u_var k t) \<in> \<int>) \<and>
       (0 \<le> a (v_var k t) \<and> a (v_var k t) \<le> 1 \<and> a (v_var k t) \<in> \<int>) \<and>
       (0 \<le> a (w_var k t) \<and> a (w_var k t) \<le> 1 \<and> a (w_var k t) \<in> \<int>) \<and>
       (0 \<le> a (p_var k t) \<and> a (p_var k t) \<le> M)"
proof -
  have four: "\<And>P. (\<forall>c < 4. P c) \<longleftrightarrow> P 0 \<and> P 1 \<and> P 2 \<and> P (3::nat)"
  proof -
    fix P :: "nat \<Rightarrow> bool"
    have "(\<forall>c < Suc (Suc (Suc (Suc 0))). P c) \<longleftrightarrow> P 0 \<and> P (Suc 0) \<and> P (Suc (Suc 0)) \<and> P (Suc (Suc (Suc 0)))"
      unfolding All_less_Suc by auto
    then show "(\<forall>c < 4. P c) \<longleftrightarrow> P 0 \<and> P 1 \<and> P 2 \<and> P (3::nat)"
      by (simp add: numeral_eq_Suc)
  qed
  have nth: "\<And>c. c < 4 \<Longrightarrow>
      concat (map (new_variables M) [1..n]) ! (4 * nat (t - 1) + c) = new_variables M t ! c"
    by (rule new_variables_upto_nth [OF assms])
  have "(\<forall>c < 4. in_domain (concat (map (new_variables M) [1..n]) ! (4 * nat (t - 1) + c))
                     (a (k + (4 * nat (t - 1) + c)))) \<longleftrightarrow>
        (\<forall>c < 4. in_domain (new_variables M t ! c) (a (k + (4 * nat (t - 1) + c))))"
    using nth by simp
  also have "\<dots> \<longleftrightarrow>
       (0 \<le> a (u_var k t) \<and> a (u_var k t) \<le> 1 \<and> a (u_var k t) \<in> \<int>) \<and>
       (0 \<le> a (v_var k t) \<and> a (v_var k t) \<le> 1 \<and> a (v_var k t) \<in> \<int>) \<and>
       (0 \<le> a (w_var k t) \<and> a (w_var k t) \<le> 1 \<and> a (w_var k t) \<in> \<int>) \<and>
       (0 \<le> a (p_var k t) \<and> a (p_var k t) \<le> M)"
    unfolding four new_variables_nth in_domain_def u_var_def v_var_def w_var_def p_var_def
    by (simp add: add.assoc)
  finally show ?thesis .
qed

lemma domain_block:
  "(\<forall>i < length (concat (map (new_variables M) [1..n])).
       in_domain (concat (map (new_variables M) [1..n]) ! i) (a (k + i))) \<longleftrightarrow>
   (\<forall>t \<in> {1..n}.
       (0 \<le> a (u_var k t) \<and> a (u_var k t) \<le> 1 \<and> a (u_var k t) \<in> \<int>) \<and>
       (0 \<le> a (v_var k t) \<and> a (v_var k t) \<le> 1 \<and> a (v_var k t) \<in> \<int>) \<and>
       (0 \<le> a (w_var k t) \<and> a (w_var k t) \<le> 1 \<and> a (w_var k t) \<in> \<int>) \<and>
       (0 \<le> a (p_var k t) \<and> a (p_var k t) \<le> M))"
  (is "?L \<longleftrightarrow> (\<forall>t \<in> {1..n}. ?D t)")
proof
  assume l: ?L
  show "\<forall>t \<in> {1..n}. ?D t"
  proof
    fix t assume "t \<in> {1..n}"
    then have t: "1 \<le> t" "t \<le> n" by simp_all
    have "\<forall>c < 4. in_domain (concat (map (new_variables M) [1..n]) ! (4 * nat (t - 1) + c))
                     (a (k + (4 * nat (t - 1) + c)))"
    proof (intro allI impI)
      fix c :: nat assume "c < 4"
      from slot_in_range [OF t this]
      have "4 * nat (t - 1) + c < length (concat (map (new_variables M) [1..n]))"
        by (simp only: length_new_variables_upto)
      with l show "in_domain (concat (map (new_variables M) [1..n]) ! (4 * nat (t - 1) + c))
                     (a (k + (4 * nat (t - 1) + c)))"
        by blast
    qed
    then show "?D t"
      by (simp only: slot_domains [OF t])
  qed
next
  assume r: "\<forall>t \<in> {1..n}. ?D t"
  show ?L
  proof (intro allI impI)
    fix i assume "i < length (concat (map (new_variables M) [1..n]))"
    then have i: "i < 4 * nat n"
      by (simp only: length_new_variables_upto)
    define q where "q = i div 4"
    define c where "c = i mod 4"
    define t where "t = int q + 1"
    have c: "c < 4" unfolding c_def by simp
    have eq: "i = 4 * q + c"
      unfolding q_def c_def by simp
    from i eq have "q < nat n" by simp
    then have t: "1 \<le> t" "t \<le> n"
      unfolding t_def by simp_all
    have q: "nat (t - 1) = q"
      unfolding t_def by simp
    from t r have "?D t" by simp
    then have "\<forall>c < 4. in_domain (concat (map (new_variables M) [1..n]) ! (4 * nat (t - 1) + c))
                     (a (k + (4 * nat (t - 1) + c)))"
      by (simp only: slot_domains [OF t])
    with c have "in_domain (concat (map (new_variables M) [1..n]) ! (4 * nat (t - 1) + c))
                     (a (k + (4 * nat (t - 1) + c)))"
      by blast
    then show "in_domain (concat (map (new_variables M) [1..n]) ! i) (a (k + i))"
      by (simp only: q eq)
  qed
qed

lemma constraints_hold:
  "(\<forall>c \<in> set (model_constraints k n minOutput maxOutput). holds a c) \<longleftrightarrow>
   (\<forall>t \<in> {1..n}. a (u_var k t) * minOutput \<le> a (p_var k t) \<and>
                   a (p_var k t) \<le> a (u_var k t) * maxOutput) \<and>
   (\<forall>t \<in> {2..n}. a (u_var k t) = a (u_var k (t - 1)) + a (v_var k t) - a (w_var k t)) \<and>
   a (u_var k 1) = a (v_var k 1)"
proof -
  have limits: "(\<forall>c \<in> set (concat (map (limit_constraints k minOutput maxOutput) [1..n])). holds a c)
      \<longleftrightarrow> (\<forall>t \<in> {1..n}. a (u_var k t) * minOutput \<le> a (p_var k t) \<and>
                   a (p_var k t) \<le> a (u_var k t) * maxOutput)"
    by (simp add: limit_constraints_def)
  have transitions: "(\<forall>c \<in> set (map (transition_constraint k) [2..n]). holds a c)
      \<longleftrightarrow> (\<forall>t \<in> {2..n}. a (u_var k t) = a (u_var k (t - 1)) + a (v_var k t) - a (w_var k t))"
    by (simp add: transition_constraint_def)
  show ?thesis
    unfolding model_constraints_def set_append ball_Un limits transitions
    by simp
qed

lemma build_feasible:
  assumes "1 \<le> n"
    and "\<forall>t \<in> set [1..n]. marketPrice t \<noteq> None \<and> variableCost t \<noteq> None"
  shows "feasible (snd (buildModel [1..n] minOutput maxOutput variableCost startUpCost marketPrice s)) a
           \<longleftrightarrow> feasible s a \<and> model_feasible (length (variables s)) n minOutput maxOutput a"
proof -
  have "feasible (snd (buildModel [1..n] minOutput maxOutput variableCost startUpCost marketPrice s)) a
      \<longleftrightarrow> feasible s a \<and>
          (\<forall>i < length (concat (map (new_variables maxOutput) [1..n])).
              in_domain (concat (map (new_variables maxOutput) [1..n]) ! i)
                (a (length (variables s) + i))) \<and>
          (\<forall>c \<in> set (model_constraints (length (variables s)) n minOutput maxOutput). holds a c)"
    by (simp only: buildModel_valid [OF assms] snd_conv feasible_extend)
  then show ?thesis
    unfolding domain_block constraints_hold model_feasible_def
    by blast
qed

lemma feasible_CreateSolver: "feasible CreateSolver a"
  by (simp add: feasible_def CreateSolver_def)

lemma fresh_build:
  assumes "valid_input horizon minOutput maxOutput variableCost startUpCost marketPrice"
    and "buildModel horizon minOutput maxOutput variableCost startUpCost marketPrice CreateSolver = (r, s)"
  shows "\<exists>n. 1 \<le> n \<and> horizon = [1..n] \<and> r = Inr (model_dicts 0 n) \<and>
    variables s = concat (map (new_variables maxOutput) [1..n]) \<and>
    constraints s = model_constraints 0 n minOutput maxOutput \<and>
    objective s = SumArray (map (profit_term 0 marketPrice variableCost startUpCost) [1..n]) \<and>
    maximization s \<and>
    (\<forall>a. feasible s a \<longleftrightarrow> model_feasible 0 n minOutput maxOutput a)"
proof -
  from assms(1) obtain n where n: "1 \<le> n" and h: "horizon = [1..n]"
    and p: "\<forall>t \<in> set [1..n]. marketPrice t \<noteq> None \<and> variableCost t \<noteq> None"
    by (rule valid_input_upto)
  have len: "length (variables CreateSolver) = 0"
    by (simp add: CreateSolver_def)
  from assms(2) buildModel_valid [OF n p, of minOutput maxOutput startUpCost CreateSolver]
  have r: "r = Inr (model_dicts 0 n)"
    and s: "s = CreateSolver\<lparr>variables := variables CreateSolver @ concat (map (new_variables maxOutput) [1..n]),
              constraints := constraints CreateSolver @ model_constraints 0 n minOutput maxOutput,
              objective := SumArray (map (profit_term 0 marketPrice variableCost startUpCost) [1..n]),
              maximization := True\<rparr>"
    unfolding h len by simp_all
  have f: "\<forall>a. feasible s a \<longleftrightarrow> model_feasible 0 n minOutput maxOutput a"
    using build_feasible [OF n p, of minOutput maxOutput startUpCost CreateSolver] assms(2)
    unfolding h len by (simp add: feasible_CreateSolver)
  from s have "variables s = concat (map (new_variables maxOutput) [1..n])"
    and "constraints s = model_constraints 0 n minOutput maxOutput"
    and "objective s = SumArray (map (profit_term 0 marketPrice variableCost startUpCost) [1..n])"
    and "maximization s"
    by (simp_all add: CreateSolver_def)
  with n h r f show ?thesis
    by blast
qed

lemma returned_feasible: "returned s st a \<Longrightarrow> feasible s a"
  by (auto simp add: returned_def is_optimal_def)

text \<open>
  Claim C4: for every valid input, in every assignment returned with status Optimal or
  Feasible for the built model, operating[t] = operating[t-1] + startUp[t] - shutDown[t]
  holds for every period t after the first, and operating[first] = startUp[first].
\<close>

theorem C4_commitment_logic:
  assumes "valid_input horizon minOutput maxOutput variableCost startUpCost marketPrice"
    and "buildModel horizon minOutput maxOutput variableCost startUpCost marketPrice CreateSolver = (r, s)"
    and "returned s st a"
  shows "\<exists>m. r = Inr m \<and>
           (\<forall>t \<in> set (tl horizon). \<exists>u u' v w.
               operating m t = Some u \<and> operating m (t - 1) = Some u' \<and>
               start_up m t = Some v \<and> shut_down m t = Some w \<and>
               a u = a u' + a v - a w) \<and>
           (\<exists>u v. operating m (hd horizon) = Some u \<and> start_up m (hd horizon) = Some v \<and>
               a u = a v)"
proof -
  from fresh_build [OF assms(1,2)] obtain n where n: "1 \<le> n" and h: "horizon = [1..n]"
    and r: "r = Inr (model_dicts 0 n)"
    and vars: "variables s = concat (map (new_variables maxOutput) [1..n])"
    and cons: "constraints s = model_constraints 0 n minOutput maxOutput"
    and obj: "objective s = SumArray (map (profit_term 0 marketPrice variableCost startUpCost) [1..n])"
    and mx: "maximization s"
    and f: "\<And>a. feasible s a \<longleftrightarrow> model_feasible 0 n minOutput maxOutput a"
    by blast
  from assms(3) have "model_feasible 0 n minOutput maxOutput a"
    using f returned_feasible by blast
  then have tr: "\<forall>t \<in> {2..n}. a (u_var 0 t) = a (u_var 0 (t - 1)) + a (v_var 0 t) - a (w_var 0 t)"
    and init: "a (u_var 0 1) = a (v_var 0 1)"
    by (simp_all add: model_feasible_def)
  from n have tl: "tl horizon = [2..n]" and hd: "hd horizon = 1"
    unfolding h by (simp_all add: upto_rec1 [of 1 n])
  have "\<forall>t \<in> set (tl horizon). \<exists>u u' v w.
               operating (model_dicts 0 n) t = Some u \<and> operating (model_dicts 0 n) (t - 1) = Some u' \<and>
               start_up (model_dicts 0 n) t = Some v \<and> shut_down (model_dicts 0 n) t = Some w \<and>
               a u = a u' + a v - a w"
    unfolding tl using tr by (simp add: model_dicts_def)
  moreover have "\<exists>u v. operating (model_dicts 0 n) (hd horizon) = Some u \<and>
      start_up (model_dicts 0 n) (hd horizon) = Some v \<and> a u = a v"
    unfolding hd using init n by (simp add: model_dicts_def)
  ultimately show ?thesis
    using r by blast
qed

text \<open>
  Claim C5: for every valid input and every period t of the horizon, in every assignment
  returned with status Optimal or Feasible for the built model, operating[t] = 0 implies
  production[t] = 0.
\<close>

theorem C5_off_means_no_production:
  assumes "valid_input horizon minOutput maxOutput variableCost startUpCost marketPrice"
    and "buildModel horizon minOutput maxOutput variableCost startUpCost marketPrice CreateSolver = (r, s)"
    and "returned s st a"
    and "t \<in> set horizon"
  shows "\<exists>m u p. r = Inr m \<and> operating m t = Some u \<and> production m t = Some p \<and>
           (a u = 0 \<longrightarrow> a p = 0)"
proof -
  from fresh_build [OF assms(1,2)] obtain n where n: "1 \<le> n" and h: "horizon = [1..n]"
    and r: "r = Inr (model_dicts 0 n)"
    and vars: "variables s = concat (map (new_variables maxOutput) [1..n])"
    and cons: "constraints s = model_constraints 0 n minOutput maxOutput"
    and obj: "objective s = SumArray (map (profit_term 0 marketPrice variableCost startUpCost) [1..n])"
    and mx: "maximization s"
    and f: "\<And>a. feasible s a \<longleftrightarrow> model_feasible 0 n minOutput maxOutput a"
    by blast
  from assms(4) h have t: "t \<in> {1..n}"
    by simp
  from assms(3) have "model_feasible 0 n minOutput maxOutput a"
    using f returned_feasible by blast
  with t have lim: "a (u_var 0 t) * minOutput \<le> a (p_var 0 t)"
      "a (p_var 0 t) \<le> a (u_var 0 t) * maxOutput"
    by (simp_all add: model_feasible_def)
  then have "a (u_var 0 t) = 0 \<longrightarrow> a (p_var 0 t) = 0"
    by auto
  moreover from t have "operating (model_dicts 0 n) t = Some (u_var 0 t)"
    "production (model_dicts 0 n) t = Some (p_var 0 t)"
    by (simp_all add: model_dicts_def)
  ultimately show ?thesis
    using r by blast
qed

lemma objective_at_zero:
  "eval_expr (\<lambda>_. 0) (SumArray (map (profit_term k marketPrice variableCost startUpCost) ts)) = 0"
  by (induction ts) (simp_all add: profit_term_def)

text \<open>
  Claim C9: for every valid input the build succeeds, the all-zero assignment is a
  feasible solution of the built model (so the model is never infeasible), its objective
  value is 0, and every assignment returned with status Optimal has objective value at
  least 0.
\<close>

theorem C9_all_zero_feasible:
  assumes "valid_input horizon minOutput maxOutput variableCost startUpCost marketPrice"
    and "buildModel horizon minOutput maxOutput variableCost startUpCost marketPrice CreateSolver = (r, s)"
  shows "(\<exists>m. r = Inr m) \<and> feasible s (\<lambda>_. 0) \<and> Objective_Value s (\<lambda>_. 0) = 0 \<and>
         (\<forall>a. returned s OPTIMAL a \<longrightarrow> 0 \<le> Objective_Value s a)"
proof -
  from fresh_build [OF assms(1,2)] obtain n where n: "1 \<le> n" and h: "horizon = [1..n]"
    and r: "r = Inr (model_dicts 0 n)"
    and vars: "variables s = concat (map (new_variables maxOutput) [1..n])"
    and cons: "constraints s = model_constraints 0 n minOutput maxOutput"
    and obj: "objective s = SumArray (map (profit_term 0 marketPrice variableCost startUpCost) [1..n])"
    and mx: "maximization s"
    and f: "\<And>a. feasible s a \<longleftrightarrow> model_feasible 0 n minOutput maxOutput a"
    by blast
  from assms(1) have "0 \<le> maxOutput"
    by (simp add: valid_input_def)
  then have "model_feasible 0 n minOutput maxOutput (\<lambda>_. 0)"
    by (simp add: model_feasible_def)
  then have zero: "feasible s (\<lambda>_. 0)"
    by (simp add: f)
  have val: "Objective_Value s (\<lambda>_. 0) = 0"
    unfolding Objective_Value_def obj by (rule objective_at_zero)
  have "0 \<le> Objective_Value s a" if "returned s OPTIMAL a" for a
  proof -
    from that have "is_optimal s a"
      by (simp add: returned_def)
    with zero mx have "Objective_Value s (\<lambda>_. 0) \<le> Objective_Value s a"
      by (simp add: is_optimal_def)
    with val show ?thesis by simp
  qed
  with r zero val show ?thesis
    by blast
qed

lemma slot_eq:
  fixes a b c c' :: nat
  assumes "c < 4" and "c' < 4"
  shows "k + 4 * a + c = k + 4 * b + c' \<longleftrightarrow> a = b \<and> c = c'"
  using assms by presburger

lemma nat_pred_eq:
  assumes "1 \<le> t" and "1 \<le> t'"
  shows "nat (t - 1) = nat (t' - 1) \<longleftrightarrow> t = t'"
  using assms by auto

lemma var_slots:
  "u_var k t \<noteq> v_var k t'" "u_var k t \<noteq> w_var k t'" "u_var k t \<noteq> p_var k t'"
  "v_var k t \<noteq> u_var k t'" "v_var k t \<noteq> w_var k t'" "v_var k t \<noteq> p_var k t'"
  "w_var k t \<noteq> u_var k t'" "w_var k t \<noteq> v_var k t'" "w_var k t \<noteq> p_var k t'"
  "p_var k t \<noteq> u_var k t'" "p_var k t \<noteq> v_var k t'" "p_var k t \<noteq> w_var k t'"
  using slot_eq [of 0 1 k "nat (t - 1)" "nat (t' - 1)"] slot_eq [of 0 2 k "nat (t - 1)" "nat (t' - 1)"]
    slot_eq [of 0 3 k "nat (t - 1)" "nat (t' - 1)"] slot_eq [of 1 0 k "nat (t - 1)" "nat (t' - 1)"]
    slot_eq [of 1 2 k "nat (t - 1)" "nat (t' - 1)"] slot_eq [of 1 3 k "nat (t - 1)" "nat (t' - 1)"]
    slot_eq [of 2 0 k "nat (t - 1)" "nat (t' - 1)"] slot_eq [of 2 1 k "nat (t - 1)" "nat (t' - 1)"]
    slot_eq [of 2 3 k "nat (t - 1)" "nat (t' - 1)"] slot_eq [of 3 0 k "nat (t - 1)" "nat (t' - 1)"]
    slot_eq [of 3 1 k "nat (t - 1)" "nat (t' - 1)"] slot_eq [of 3 2 k "nat (t - 1)" "nat (t' - 1)"]
  by (simp_all add: u_var_def v_var_def w_var_def p_var_def)

lemma var_slots_same:
  assumes "1 \<le> t" and "1 \<le> t'"
  shows "u_var k t = u_var k t' \<longleftrightarrow> t = t'" "v_var k t = v_var k t' \<longleftrightarrow> t = t'"
    "w_var k t = w_var k t' \<longleftrightarrow> t = t'" "p_var k t = p_var k t' \<longleftrightarrow> t = t'"
  using nat_pred_eq [OF assms]
  by (simp_all add: u_var_def v_var_def w_var_def p_var_def)

lemma eval_expr_upd:
  "i \<notin> vars_of e \<Longrightarrow> eval_expr (a(i := x)) e = eval_expr a e"
proof (induction e)
  case (SumArray es)
  from SumArray.prems have "\<forall>e \<in> set es. i \<notin> vars_of e"
    by simp
  with SumArray.IH have "\<forall>e \<in> set es. eval_expr (a(i := x)) e = eval_expr a e"
    by blast
  then have "map (eval_expr (a(i := x))) es = map (eval_expr a) es"
    by (simp only: map_eq_conv)
  then show ?case
    by (simp only: eval_expr.simps)
qed simp_all

lemma holds_upd:
  "\<not> mentions i c \<Longrightarrow> holds (a(i := x)) c = holds a c"
  by (cases c) (simp_all add: eval_expr_upd)

lemma vars_of_objective:
  "vars_of (SumArray (map (profit_term k marketPrice variableCost startUpCost) ts)) =
     (\<Union>t \<in> set ts. {p_var k t, v_var k t})"
  by (auto simp add: profit_term_def)

lemma objective_formula:
  "eval_expr a (SumArray (map (profit_term k marketPrice variableCost startUpCost) ts)) =
     spec_objective ts (\<lambda>t. the (marketPrice t)) (\<lambda>t. the (variableCost t)) startUpCost
       (\<lambda>t. a (p_var k t)) (\<lambda>t. a (v_var k t))"
  by (simp add: spec_objective_def profit_term_def comp_def mult.commute)

lemma spec_objective_cong:
  assumes "\<forall>t \<in> set ts. f t = f' t \<and> g t = g' t"
  shows "spec_objective ts mp vc suc f g = spec_objective ts mp vc suc f' g'"
proof -
  from assms have "\<forall>t \<in> set ts. (mp t - vc t) * f t - suc * g t = (mp t - vc t) * f' t - suc * g' t"
    by simp
  then have "map (\<lambda>t. (mp t - vc t) * f t - suc * g t) ts =
      map (\<lambda>t. (mp t - vc t) * f' t - suc * g' t) ts"
    by (simp only: map_eq_conv)
  then show ?thesis
    by (simp only: spec_objective_def)
qed

text \<open>
  Claim C2: for every valid input the built model maximises, and the value of its
  objective at every assignment is the specification's formula
  \<open>\<Sum>\<^sub>t (marketPrice[t] - variableCost[t]) \<cdot> production[t] - startUpCost \<cdot> startUp[t]\<close>;
  changing the value of a shut-down variable never changes the objective.
\<close>

theorem C2_objective:
  assumes "valid_input horizon minOutput maxOutput variableCost startUpCost marketPrice"
    and "buildModel horizon minOutput maxOutput variableCost startUpCost marketPrice CreateSolver = (r, s)"
  shows "\<exists>m. r = Inr m \<and> maximization s \<and>
           (\<forall>t \<in> set horizon. production m t \<noteq> None \<and> start_up m t \<noteq> None \<and> shut_down m t \<noteq> None) \<and>
           (\<forall>a. Objective_Value s a =
              spec_objective horizon (\<lambda>t. the (marketPrice t)) (\<lambda>t. the (variableCost t)) startUpCost
                (\<lambda>t. a (the (production m t))) (\<lambda>t. a (the (start_up m t)))) \<and>
           (\<forall>a x. \<forall>t \<in> set horizon.
              Objective_Value s (a(the (shut_down m t) := x)) = Objective_Value s a)"
proof -
  from fresh_build [OF assms(1,2)] obtain n where n: "1 \<le> n" and h: "horizon = [1..n]"
    and r: "r = Inr (model_dicts 0 n)"
    and obj: "objective s = SumArray (map (profit_term 0 marketPrice variableCost startUpCost) [1..n])"
    and mx: "maximization s"
    by blast
  let ?m = "model_dicts 0 n"
  have dom: "\<forall>t \<in> set horizon. production ?m t \<noteq> None \<and> start_up ?m t \<noteq> None \<and> shut_down ?m t \<noteq> None"
    unfolding h by (simp add: model_dicts_def)
  have formula: "Objective_Value s a =
      spec_objective horizon (\<lambda>t. the (marketPrice t)) (\<lambda>t. the (variableCost t)) startUpCost
        (\<lambda>t. a (the (production ?m t))) (\<lambda>t. a (the (start_up ?m t)))" for a
    unfolding Objective_Value_def obj objective_formula h
    by (rule spec_objective_cong) (simp add: model_dicts_def)
  have free: "Objective_Value s (a(the (shut_down ?m t) := x)) = Objective_Value s a"
    if "t \<in> set horizon" for a x t
  proof -
    from that have w: "the (shut_down ?m t) = w_var 0 t"
      unfolding h by (simp add: model_dicts_def)
    have "w_var 0 t \<notin> vars_of (objective s)"
      unfolding obj vars_of_objective by (simp add: var_slots)
    then show ?thesis
      unfolding Objective_Value_def w by (rule eval_expr_upd)
  qed
  from r mx dom formula free show ?thesis
    by blast
qed

section \<open>The general theorems at the notebook's parameters\<close>

text \<open>
  Claim C4, witness: the notebook's parameters are a valid input, the printed assignment
  is returned with status Optimal, and the commitment equalities hold of it.
\<close>

theorem C4_commitment_logic_witness:
  "valid_input times PROD_MIN PROD_MAX PROD_COSTS START_UP_COSTS PRICE \<and>
   returned notebook_solver OPTIMAL printed_solution \<and>
   (\<exists>m. fst (buildModel times PROD_MIN PROD_MAX PROD_COSTS START_UP_COSTS PRICE CreateSolver) = Inr m \<and>
      (\<forall>t \<in> set (tl times). \<exists>u u' v w.
          operating m t = Some u \<and> operating m (t - 1) = Some u' \<and>
          start_up m t = Some v \<and> shut_down m t = Some w \<and>
          printed_solution u = printed_solution u' + printed_solution v - printed_solution w) \<and>
      (\<exists>u v. operating m (hd times) = Some u \<and> start_up m (hd times) = Some v \<and>
          printed_solution u = printed_solution v))"
  using notebook_valid_input printed_solution_returned
    C4_commitment_logic [OF notebook_valid_input notebook_build printed_solution_returned]
  by blast

text \<open>
  Claim C5, witness: in the printed assignment the unit is off in period 2
  (operating variable 4 has value 0) and its production (variable 7) is 0.
\<close>

theorem C5_off_means_no_production_witness:
  "valid_input times PROD_MIN PROD_MAX PROD_COSTS START_UP_COSTS PRICE \<and>
   returned notebook_solver OPTIMAL printed_solution \<and> 2 \<in> set times \<and>
   (\<exists>m u p. fst (buildModel times PROD_MIN PROD_MAX PROD_COSTS START_UP_COSTS PRICE CreateSolver) = Inr m \<and>
      operating m 2 = Some u \<and> production m 2 = Some p \<and>
      (printed_solution u = 0 \<longrightarrow> printed_solution p = 0)) \<and>
   printed_solution 4 = 0 \<and> printed_solution 7 = 0"
proof -
  have t: "2 \<in> set times"
    by (simp add: times_def)
  have "printed_solution 4 = 0 \<and> printed_solution 7 = 0"
    by (simp add: printed_solution_def)
  with t notebook_valid_input printed_solution_returned
    C5_off_means_no_production [OF notebook_valid_input notebook_build printed_solution_returned t]
  show ?thesis
    by blast
qed

text \<open>
  Claim C9, witness: the notebook's parameters are a valid input; the all-zero assignment
  is feasible for the notebook's model with objective value 0, and the printed assignment,
  returned with status Optimal, has an objective value of at least 0.
\<close>

theorem C9_all_zero_feasible_witness:
  "valid_input times PROD_MIN PROD_MAX PROD_COSTS START_UP_COSTS PRICE \<and>
   (\<exists>m. fst (buildModel times PROD_MIN PROD_MAX PROD_COSTS START_UP_COSTS PRICE CreateSolver) = Inr m) \<and>
   feasible notebook_solver (\<lambda>_. 0) \<and> Objective_Value notebook_solver (\<lambda>_. 0) = 0 \<and>
   returned notebook_solver OPTIMAL printed_solution \<and>
   0 \<le> Objective_Value notebook_solver printed_solution"
  using notebook_valid_input printed_solution_returned
    C9_all_zero_feasible [OF notebook_valid_input notebook_build]
  by blast

text \<open>
  Claim C2, witness: the notebook's parameters are a valid input, and the objective of the
  notebook's model is the specification's formula at every assignment.
\<close>

theorem C2_objective_witness:
  "valid_input times PROD_MIN PROD_MAX PROD_COSTS START_UP_COSTS PRICE \<and>
   (\<exists>m. fst (buildModel times PROD_MIN PROD_MAX PROD_COSTS START_UP_COSTS PRICE CreateSolver) = Inr m \<and>
      maximization notebook_solver \<and>
      (\<forall>t \<in> set times. production m t \<noteq> None \<and> start_up m t \<noteq> None \<and> shut_down m t \<noteq> None) \<and>
      (\<forall>a. Objective_Value notebook_solver a =
         spec_objective times (\<lambda>t. the (PRICE t)) (\<lambda>t. the (PROD_COSTS t)) START_UP_COSTS
           (\<lambda>t. a (the (production m t))) (\<lambda>t. a (the (start_up m t)))) \<and>
      (\<forall>a x. \<forall>t \<in> set times.
         Objective_Value notebook_solver (a(the (shut_down m t) := x)) =
         Objective_Value notebook_solver a))"
  using notebook_valid_input C2_objective [OF notebook_valid_input notebook_build]
  by blast

section \<open>Which variables the constraints mention\<close>


lemma filter_concat_single:
  assumes "t \<in> set xs" and "distinct xs" and "filter P (f t) = f t"
    and "\<forall>x \<in> set xs. x \<noteq> t \<longrightarrow> filter P (f x) = []"
  shows "filter P (concat (map f xs)) = f t"
  using assms(1,2,4)
proof (induction xs)
  case Nil
  then show ?case by simp
next
  case (Cons x xs)
  show ?case
  proof (cases "x = t")
    case True
    with Cons.prems have "\<forall>y \<in> set xs. filter P (f y) = []"
      by auto
    then have "filter P (concat (map f xs)) = []"
      by (induction xs) simp_all
    with True assms(3) show ?thesis by simp
  next
    case False
    with Cons.prems have "t \<in> set xs" "distinct xs" "\<forall>y \<in> set xs. y \<noteq> t \<longrightarrow> filter P (f y) = []"
      "filter P (f x) = []"
      by auto
    with Cons.IH show ?thesis by simp
  qed
qed

lemma mentions_limits:
  assumes "1 \<le> t" and "1 \<le> t'"
  shows "filter (mentions (p_var k t)) (limit_constraints k mn mx t') =
           (if t' = t then limit_constraints k mn mx t else [])"
  using var_slots_same(4) [OF assms, of k] var_slots(10) [of k t t']
  by (auto simp add: limit_constraints_def)

lemma mentions_transition_p: "\<not> mentions (p_var k t) (transition_constraint k t')"
  by (simp add: transition_constraint_def var_slots)

lemma mentions_initial_p: "\<not> mentions (p_var k t) (Eq (LVar (u_var k 1)) (LVar (v_var k 1)))"
  by (simp add: var_slots)

lemma production_constraints:
  assumes "1 \<le> t" and "t \<le> n"
  shows "filter (mentions (p_var k t)) (model_constraints k n mn mx) = limit_constraints k mn mx t"
proof -
  have "filter (mentions (p_var k t)) (concat (map (limit_constraints k mn mx) [1..n])) =
      limit_constraints k mn mx t"
  proof (rule filter_concat_single)
    show "t \<in> set [1..n]" using assms by simp
    show "distinct [1..n]" by simp
    show "filter (mentions (p_var k t)) (limit_constraints k mn mx t) = limit_constraints k mn mx t"
      using mentions_limits [OF assms(1) assms(1)] by simp
    show "\<forall>x \<in> set [1..n]. x \<noteq> t \<longrightarrow> filter (mentions (p_var k t)) (limit_constraints k mn mx x) = []"
      using mentions_limits [OF assms(1)] by simp
  qed
  moreover have "filter (mentions (p_var k t)) (map (transition_constraint k) [2..n]) = []"
    by (simp add: filter_empty_conv mentions_transition_p)
  ultimately show ?thesis
    unfolding model_constraints_def filter_append
    using mentions_initial_p [of k t] by simp
qed

text \<open>
  Claim C3: for every valid input and every period t of the horizon, the built model has
  a continuous variable production[t] with domain [0, maxOutput], and the constraints that
  mention it are exactly the two production bounds
  operating[t] * minOutput \<le> production[t] and production[t] \<le> operating[t] * maxOutput.
\<close>

theorem C3_production_variable:
  assumes "valid_input horizon minOutput maxOutput variableCost startUpCost marketPrice"
    and "buildModel horizon minOutput maxOutput variableCost startUpCost marketPrice CreateSolver = (r, s)"
    and "t \<in> set horizon"
  shows "\<exists>m p u. r = Inr m \<and> production m t = Some p \<and> operating m t = Some u \<and>
           p < length (variables s) \<and>
           variables s ! p =
             \<lparr>var_lb = 0, var_ub = maxOutput, var_integer = False, var_name = (''production_'', t)\<rparr> \<and>
           filter (mentions p) (constraints s) =
             [Le (ProductCst (LVar u) minOutput) (LVar p),
              Le (LVar p) (ProductCst (LVar u) maxOutput)]"
proof -
  from fresh_build [OF assms(1,2)] obtain n where n: "1 \<le> n" and h: "horizon = [1..n]"
    and r: "r = Inr (model_dicts 0 n)"
    and vars: "variables s = concat (map (new_variables maxOutput) [1..n])"
    and cons: "constraints s = model_constraints 0 n minOutput maxOutput"
    by blast
  from assms(3) h have t: "1 \<le> t" "t \<le> n"
    by simp_all
  have p: "p_var 0 t = 4 * nat (t - 1) + 3"
    by (simp add: p_var_def)
  have len: "p_var 0 t < length (variables s)"
    unfolding vars length_new_variables_upto p
    by (rule slot_in_range [OF t]) simp
  have var: "variables s ! p_var 0 t =
      \<lparr>var_lb = 0, var_ub = maxOutput, var_integer = False, var_name = (''production_'', t)\<rparr>"
    unfolding vars p using new_variables_upto_nth [OF t, of 3 maxOutput]
    by (simp add: new_variables_nth)
  have fil: "filter (mentions (p_var 0 t)) (constraints s) =
      [Le (ProductCst (LVar (u_var 0 t)) minOutput) (LVar (p_var 0 t)),
       Le (LVar (p_var 0 t)) (ProductCst (LVar (u_var 0 t)) maxOutput)]"
    unfolding cons production_constraints [OF t] by (simp add: limit_constraints_def)
  from t have "production (model_dicts 0 n) t = Some (p_var 0 t)"
    "operating (model_dicts 0 n) t = Some (u_var 0 t)"
    by (simp_all add: model_dicts_def)
  with r len var fil show ?thesis
    by blast
qed

text \<open>
  Claim C3, witness: the notebook's parameters are a valid input, 3 is a period of its
  horizon, and production[3] of the notebook's model is as the theorem says.
\<close>

theorem C3_production_variable_witness:
  "valid_input times PROD_MIN PROD_MAX PROD_COSTS START_UP_COSTS PRICE \<and> 3 \<in> set times \<and>
   (\<exists>m p u. fst (buildModel times PROD_MIN PROD_MAX PROD_COSTS START_UP_COSTS PRICE CreateSolver) = Inr m \<and>
      production m 3 = Some p \<and> operating m 3 = Some u \<and>
      p < length (variables notebook_solver) \<and>
      variables notebook_solver ! p =
        \<lparr>var_lb = 0, var_ub = PROD_MAX, var_integer = False, var_name = (''production_'', 3)\<rparr> \<and>
      filter (mentions p) (constraints notebook_solver) =
        [Le (ProductCst (LVar u) PROD_MIN) (LVar p),
         Le (LVar p) (ProductCst (LVar u) PROD_MAX)])"
proof -
  have t: "3 \<in> set times"
    by (simp add: times_def)
  with notebook_valid_input C3_production_variable [OF notebook_valid_input notebook_build t]
  show ?thesis
    by blast
qed

lemma feasible_upd:
  assumes "feasible s a" and "i < length (variables s)" and "in_domain (variables s ! i) x"
    and "\<forall>c \<in> set (constraints s). \<not> mentions i c"
  shows "feasible s (a(i := x))"
  using assms by (simp add: feasible_def holds_upd)

lemma first_shut_down_unconstrained:
  "\<forall>c \<in> set (model_constraints k n mn mx). \<not> mentions (w_var k 1) c"
proof -
  have limits: "\<forall>c \<in> set (concat (map (limit_constraints k mn mx) [1..n])). \<not> mentions (w_var k 1) c"
    by (simp add: limit_constraints_def var_slots)
  have later: "\<forall>t \<in> {2..n}. w_var k 1 \<noteq> w_var k t"
  proof
    fix t assume "t \<in> {2..n}"
    then have "1 \<le> t" "t \<noteq> 1" by simp_all
    with var_slots_same(3) [of 1 t k] show "w_var k 1 \<noteq> w_var k t"
      by simp
  qed
  have transitions: "\<forall>c \<in> set (map (transition_constraint k) [2..n]). \<not> mentions (w_var k 1) c"
    using later by (simp add: transition_constraint_def var_slots)
  have initial: "\<not> mentions (w_var k 1) (Eq (LVar (u_var k 1)) (LVar (v_var k 1)))"
    by (simp add: var_slots)
  from limits transitions initial show ?thesis
    unfolding model_constraints_def set_append ball_Un by simp
qed

text \<open>
  Claim C10: for every valid input, the shut-down variable of the first period is a
  binary variable that occurs in no constraint and not in the objective of the built model;
  so giving it either binary value in a feasible assignment leaves the assignment feasible
  and its objective value unchanged.
\<close>

theorem C10_first_shut_down_free:
  assumes "valid_input horizon minOutput maxOutput variableCost startUpCost marketPrice"
    and "buildModel horizon minOutput maxOutput variableCost startUpCost marketPrice CreateSolver = (r, s)"
  shows "\<exists>m w. r = Inr m \<and> shut_down m (hd horizon) = Some w \<and>
           w < length (variables s) \<and>
           variables s ! w =
             \<lparr>var_lb = 0, var_ub = 1, var_integer = True, var_name = (''shut_down_'', hd horizon)\<rparr> \<and>
           (\<forall>c \<in> set (constraints s). \<not> mentions w c) \<and>
           w \<notin> vars_of (objective s) \<and>
           (\<forall>a x. feasible s a \<and> (x = 0 \<or> x = 1) \<longrightarrow>
              feasible s (a(w := x)) \<and> Objective_Value s (a(w := x)) = Objective_Value s a)"
proof -
  from fresh_build [OF assms(1,2)] obtain n where n: "1 \<le> n" and h: "horizon = [1..n]"
    and r: "r = Inr (model_dicts 0 n)"
    and vars: "variables s = concat (map (new_variables maxOutput) [1..n])"
    and cons: "constraints s = model_constraints 0 n minOutput maxOutput"
    and obj: "objective s = SumArray (map (profit_term 0 marketPrice variableCost startUpCost) [1..n])"
    by blast
  from n have hd: "hd horizon = 1"
    unfolding h by (simp add: upto_rec1 [of 1 n])
  have one: "(1::int) \<le> 1" by simp
  have w: "w_var 0 1 = 4 * nat (1 - 1) + 2"
    by (simp add: w_var_def)
  have len: "w_var 0 1 < length (variables s)"
    unfolding vars length_new_variables_upto w
    by (rule slot_in_range [OF one n]) simp
  have var: "variables s ! w_var 0 1 =
      \<lparr>var_lb = 0, var_ub = 1, var_integer = True, var_name = (''shut_down_'', 1)\<rparr>"
    unfolding vars w using new_variables_upto_nth [OF one n, of 2 maxOutput]
    by (simp add: new_variables_nth)
  have nocons: "\<forall>c \<in> set (constraints s). \<not> mentions (w_var 0 1) c"
    unfolding cons by (rule first_shut_down_unconstrained)
  have noobj: "w_var 0 1 \<notin> vars_of (objective s)"
    unfolding obj vars_of_objective by (simp add: var_slots)
  have free: "feasible s (a(w_var 0 1 := x)) \<and>
      Objective_Value s (a(w_var 0 1 := x)) = Objective_Value s a"
    if "feasible s a \<and> (x = 0 \<or> x = 1)" for a x
  proof
    from that have "in_domain (variables s ! w_var 0 1) x"
      unfolding var by (auto simp add: in_domain_def)
    with that len nocons show "feasible s (a(w_var 0 1 := x))"
      by (simp add: feasible_upd)
    from noobj show "Objective_Value s (a(w_var 0 1 := x)) = Objective_Value s a"
      unfolding Objective_Value_def by (rule eval_expr_upd)
  qed
  from n have "shut_down (model_dicts 0 n) (hd horizon) = Some (w_var 0 1)"
    unfolding hd by (simp add: model_dicts_def)
  with r len var nocons noobj free show ?thesis
    unfolding hd by blast
qed

text \<open>
  Claim C10, witness: the notebook's parameters are a valid input and the printed
  assignment is feasible; setting the first shut-down variable to 1 in it keeps it
  feasible with the same objective value.
\<close>

theorem C10_first_shut_down_free_witness:
  "valid_input times PROD_MIN PROD_MAX PROD_COSTS START_UP_COSTS PRICE \<and>
   feasible notebook_solver printed_solution \<and>
   (\<exists>m w. fst (buildModel times PROD_MIN PROD_MAX PROD_COSTS START_UP_COSTS PRICE CreateSolver) = Inr m \<and>
      shut_down m (hd times) = Some w \<and>
      feasible notebook_solver (printed_solution(w := 1)) \<and>
      Objective_Value notebook_solver (printed_solution(w := 1)) =
        Objective_Value notebook_solver printed_solution)"
  using notebook_valid_input printed_solution_feasible
    C10_first_shut_down_free [OF notebook_valid_input notebook_build]
  by blast

section \<open>When the build fails\<close>

lemma obj_expr_missing:
  assumes "\<exists>t \<in> set ts. marketPrice t = None \<or> variableCost t = None"
  shows "obj_expr ts marketPrice variableCost startUpCost d = Inl KeyError"
  using assms
proof (induction ts)
  case Nil
  then show ?case by simp
next
  case (Cons t ts)
  show ?case
  proof (cases "marketPrice t = None \<or> variableCost t = None")
    case True
    then show ?thesis
      by (auto simp add: bnd_def getitem_def split: option.splits)
  next
    case False
    with Cons.prems have "\<exists>t \<in> set ts. marketPrice t = None \<or> variableCost t = None"
      by simp
    then have "obj_expr ts marketPrice variableCost startUpCost d = Inl KeyError"
      by (rule Cons.IH)
    then show ?thesis
      by (simp add: bnd_def getitem_def split: option.splits)
  qed
qed

lemma production_limits_variables:
  "variables (snd (production_limits ts mn mx d s)) = variables s"
  by (induction ts arbitrary: s)
    (auto simp add: bnd_def getitem_def Add_def split: option.splits sum.splits)

lemma commitment_logic_variables:
  "variables (snd (commitment_logic ts d s)) = variables s"
  by (induction ts arbitrary: s)
    (auto simp add: bnd_def getitem_def Add_def split: option.splits sum.splits)

lemma first_period_variables:
  "variables (snd (first_period d s)) = variables s"
  by (auto simp add: first_period_def bnd_def getitem_def Add_def split: option.splits sum.splits)

lemma create_variables_length:
  "length (variables (snd (create_variables ts M (d, s)))) = length (variables s) + 4 * length ts"
  unfolding create_variables_solver
  using concat_blocks_length [of "new_variables M" 4 ts]
  by (simp add: new_variables_length)

lemma buildModel_variables:
  "length (variables (snd (buildModel horizon mn mx vc suc mp s))) =
     length (variables s) + 4 * length horizon"
proof -
  obtain d s1 where c: "create_variables horizon mx (fromkeys, s) = (d, s1)"
    by (cases "create_variables horizon mx (fromkeys, s)")
  with create_variables_length [of horizon mx fromkeys s]
  have len: "length (variables s1) = length (variables s) + 4 * length horizon"
    by simp
  have pl: "variables (snd (production_limits horizon mn mx d s')) = variables s'" for s'
    by (rule production_limits_variables)
  have cl: "variables (snd (commitment_logic (tl horizon) d s')) = variables s'" for s'
    by (rule commitment_logic_variables)
  have fp: "variables (snd (first_period d s')) = variables s'" for s'
    by (rule first_period_variables)
  show ?thesis
  proof (cases "obj_expr horizon mp vc suc d")
    case (Inl e)
    with c len show ?thesis
      by (simp add: buildModel_def)
  next
    case (Inr es)
    let ?s2 = "Maximize (SumArray es) s1"
    obtain r3 s3 where p3: "production_limits horizon mn mx d ?s2 = (r3, s3)"
      by (cases "production_limits horizon mn mx d ?s2")
    obtain r4 s4 where p4: "commitment_logic (tl horizon) d s3 = (r4, s4)"
      by (cases "commitment_logic (tl horizon) d s3")
    obtain r5 s5 where p5: "first_period d s4 = (r5, s5)"
      by (cases "first_period d s4")
    from pl [of ?s2] p3 have v3: "variables s3 = variables s1"
      by (simp add: Maximize_def)
    from cl [of s3] p4 v3 have v4: "variables s4 = variables s1"
      by simp
    from fp [of s4] p5 v4 have v5: "variables s5 = variables s1"
      by simp
    from c Inr p3 p4 p5 v3 v4 v5 len show ?thesis
      by (simp add: buildModel_def split: sum.splits)
  qed
qed

lemma buildModel_empty:
  "buildModel [] mn mx vc suc mp s = (Inl KeyError, Maximize (SumArray []) s)"
  by (simp add: buildModel_def fromkeys_def first_period_def bnd_def getitem_def)

lemma buildModel_missing:
  assumes "\<exists>t \<in> set horizon. mp t = None \<or> vc t = None"
  shows "fst (buildModel horizon mn mx vc suc mp s) = Inl KeyError"
proof -
  obtain d s1 where c: "create_variables horizon mx (fromkeys, s) = (d, s1)"
    by (cases "create_variables horizon mx (fromkeys, s)")
  with obj_expr_missing [OF assms, of suc d] show ?thesis
    by (simp add: buildModel_def)
qed

text \<open>
  Claim C6, as the code behaves: for a horizon \<open>(1, \<dots>, n)\<close>, on any solver and whatever
  minOutput and maxOutput are, the build succeeds exactly when the horizon is not empty
  and every index of it has a market price and a variable cost; otherwise it fails, and
  the failure is a KeyError. In either case the four variables of every period have been
  registered with the solver when the build ends, and for the empty horizon the objective
  has been set.
\<close>

theorem C6_build_fails_only_on_missing_keys:
  assumes "horizon = [1..n]"
  shows "fst (buildModel horizon minOutput maxOutput variableCost startUpCost marketPrice s) =
           (if 1 \<le> n \<and> (\<forall>t \<in> set horizon. marketPrice t \<noteq> None \<and> variableCost t \<noteq> None)
            then Inr (fst (create_variables horizon maxOutput (fromkeys, s)))
            else Inl KeyError) \<and>
         length (variables (snd (buildModel horizon minOutput maxOutput variableCost startUpCost marketPrice s))) =
           length (variables s) + 4 * length horizon \<and>
         (n < 1 \<longrightarrow>
            maximization (snd (buildModel horizon minOutput maxOutput variableCost startUpCost marketPrice s)))"
proof -
  let ?b = "buildModel horizon minOutput maxOutput variableCost startUpCost marketPrice s"
  have res: "fst ?b =
      (if 1 \<le> n \<and> (\<forall>t \<in> set horizon. marketPrice t \<noteq> None \<and> variableCost t \<noteq> None)
       then Inr (fst (create_variables horizon maxOutput (fromkeys, s)))
       else Inl KeyError)"
  proof (cases "1 \<le> n")
    case False
    then have "horizon = []"
      unfolding assms by simp
    with False show ?thesis
      by (simp add: buildModel_empty)
  next
    case n: True
    show ?thesis
    proof (cases "\<forall>t \<in> set horizon. marketPrice t \<noteq> None \<and> variableCost t \<noteq> None")
      case True
      then have p: "\<forall>t \<in> set [1..n]. marketPrice t \<noteq> None \<and> variableCost t \<noteq> None"
        unfolding assms .
      from buildModel_valid [OF n p, of minOutput maxOutput startUpCost s] n True
      show ?thesis
        unfolding assms by (simp add: create_variables_dicts)
    next
      case False
      then have "\<exists>t \<in> set horizon. marketPrice t = None \<or> variableCost t = None"
        by simp
      from buildModel_missing [OF this] False show ?thesis
        by simp
    qed
  qed
  have emp: "maximization (snd ?b)" if "n < 1"
  proof -
    from that have "horizon = []"
      unfolding assms by simp
    then show ?thesis
      by (simp add: buildModel_empty Maximize_def)
  qed
  from res buildModel_variables [of horizon minOutput maxOutput variableCost startUpCost marketPrice s] emp
  show ?thesis
    by blast
qed

text \<open>
  Claim C6, witness: the notebook's horizon is (1, 2, 3), its build succeeds and leaves
  twelve variables in the solver.
\<close>

theorem C6_build_fails_only_on_missing_keys_witness:
  "times = [1..3] \<and>
   fst (buildModel times PROD_MIN PROD_MAX PROD_COSTS START_UP_COSTS PRICE CreateSolver) =
     Inr (fst (create_variables times PROD_MAX (fromkeys, CreateSolver))) \<and>
   length (variables (snd (buildModel times PROD_MIN PROD_MAX PROD_COSTS START_UP_COSTS PRICE CreateSolver))) = 12"
proof -
  have t: "times = [1..3]"
    by (simp add: times_def upto_rec1)
  have c: "1 \<le> (3::int) \<and> (\<forall>t \<in> set times. PRICE t \<noteq> None \<and> PROD_COSTS t \<noteq> None)"
    by (simp add: params)
  have l: "length (variables CreateSolver) + 4 * length times = 12"
    by (simp add: CreateSolver_def times_def)
  note inst = C6_build_fails_only_on_missing_keys [OF t, of PROD_MIN PROD_MAX PROD_COSTS START_UP_COSTS PRICE CreateSolver]
  from inst have "fst (buildModel times PROD_MIN PROD_MAX PROD_COSTS START_UP_COSTS PRICE CreateSolver) =
      (if 1 \<le> (3::int) \<and> (\<forall>t \<in> set times. PRICE t \<noteq> None \<and> PROD_COSTS t \<noteq> None)
       then Inr (fst (create_variables times PROD_MAX (fromkeys, CreateSolver)))
       else Inl KeyError)"
    by (rule conjunct1)
  with c have 1: "fst (buildModel times PROD_MIN PROD_MAX PROD_COSTS START_UP_COSTS PRICE CreateSolver) =
      Inr (fst (create_variables times PROD_MAX (fromkeys, CreateSolver)))"
    by simp
  from inst l have 2: "length (variables (snd (buildModel times PROD_MIN PROD_MAX PROD_COSTS
      START_UP_COSTS PRICE CreateSolver))) = 12"
    by (simp only:)
  from t 1 2 show ?thesis
    by (intro conjI)
qed

text \<open>
  Claim C6, counterexample to a failure with InvalidParameterError before any solver
  interaction: with minOutput = 100 and maxOutput = 10 the build succeeds; with the empty
  horizon it fails with KeyError after the objective has been set on the solver; with the
  price of period 2 missing it fails with KeyError after twelve variables have been
  registered.
\<close>

theorem C6_no_parameter_validation:
  "PROD_MIN < PROD_MAX \<and>
   fst (buildModel times PROD_MAX PROD_MIN PROD_COSTS START_UP_COSTS PRICE CreateSolver) =
     Inr \<lparr>production = [1 \<mapsto> 3, 2 \<mapsto> 7, 3 \<mapsto> 11], operating = [1 \<mapsto> 0, 2 \<mapsto> 4, 3 \<mapsto> 8],
          start_up = [1 \<mapsto> 1, 2 \<mapsto> 5, 3 \<mapsto> 9], shut_down = [1 \<mapsto> 2, 2 \<mapsto> 6, 3 \<mapsto> 10]\<rparr> \<and>
   buildModel [] PROD_MIN PROD_MAX PROD_COSTS START_UP_COSTS PRICE CreateSolver =
     (Inl KeyError,
      \<lparr>variables = [], constraints = [], objective = SumArray [], maximization = True\<rparr>) \<and>
   fst (buildModel times PROD_MIN PROD_MAX PROD_COSTS START_UP_COSTS (PRICE(2 := None)) CreateSolver) =
     Inl KeyError \<and>
   length (variables (snd (buildModel times PROD_MIN PROD_MAX PROD_COSTS START_UP_COSTS
     (PRICE(2 := None)) CreateSolver))) = 12"
  by (simp add: buildModel_def params CreateSolver_def fromkeys_def IntVar_def NumVar_def
      Add_def Maximize_def getitem_def bnd_def first_period_def numeral_eq_Suc)

section \<open>Reading the result\<close>

lemma solution_values_present:
  assumes "\<forall>t \<in> set ts. dict t \<noteq> None"
  shows "solution_values ts dict a = Inr (map (\<lambda>t. a (the (dict t))) ts)"
  using assms
  by (induction ts) (auto simp add: bnd_def getitem_def)

text \<open>
  Claim C7, as the code behaves: for a model built from a valid input, the cells that
  read the result never fail, whatever the status: the values of production, operating,
  start-up and shut-down of every period are read from the solver and returned, and the
  objective value is reported exactly when the status is Optimal.
\<close>

theorem C7_reading_never_fails:
  assumes "valid_input horizon minOutput maxOutput variableCost startUpCost marketPrice"
    and "buildModel horizon minOutput maxOutput variableCost startUpCost marketPrice CreateSolver = (r, s)"
  shows "\<exists>m. r = Inr m \<and>
           interpret_result st horizon m s a =
             Inr \<lparr>objective_value = (if st = OPTIMAL then Some (Objective_Value s a) else None),
                  production_values = map (\<lambda>t. a (the (production m t))) horizon,
                  operating_values = map (\<lambda>t. a (the (operating m t))) horizon,
                  start_up_values = map (\<lambda>t. a (the (start_up m t))) horizon,
                  shut_down_values = map (\<lambda>t. a (the (shut_down m t))) horizon\<rparr>"
proof -
  from fresh_build [OF assms(1,2)] obtain n where n: "1 \<le> n" and h: "horizon = [1..n]"
    and r: "r = Inr (model_dicts 0 n)"
    by blast
  let ?m = "model_dicts 0 n"
  have "\<forall>t \<in> set horizon. production ?m t \<noteq> None" "\<forall>t \<in> set horizon. operating ?m t \<noteq> None"
    "\<forall>t \<in> set horizon. start_up ?m t \<noteq> None" "\<forall>t \<in> set horizon. shut_down ?m t \<noteq> None"
    unfolding h by (simp_all add: model_dicts_def)
  then have "interpret_result st horizon ?m s a =
      Inr \<lparr>objective_value = (if st = OPTIMAL then Some (Objective_Value s a) else None),
           production_values = map (\<lambda>t. a (the (production ?m t))) horizon,
           operating_values = map (\<lambda>t. a (the (operating ?m t))) horizon,
           start_up_values = map (\<lambda>t. a (the (start_up ?m t))) horizon,
           shut_down_values = map (\<lambda>t. a (the (shut_down ?m t))) horizon\<rparr>"
    by (simp add: interpret_result_def solution_values_present bnd_def objective_output_def)
  with r show ?thesis
    by blast
qed

text \<open>
  Claim C7, witness: the notebook's parameters are a valid input, and with status
  Abnormal the reading cells return the per-period values and no objective value.
\<close>

theorem C7_reading_never_fails_witness:
  "valid_input times PROD_MIN PROD_MAX PROD_COSTS START_UP_COSTS PRICE \<and>
   (\<exists>m. fst (buildModel times PROD_MIN PROD_MAX PROD_COSTS START_UP_COSTS PRICE CreateSolver) = Inr m \<and>
      interpret_result ABNORMAL times m notebook_solver printed_solution =
        Inr \<lparr>objective_value =
               (if ABNORMAL = OPTIMAL then Some (Objective_Value notebook_solver printed_solution)
                else None),
             production_values = map (\<lambda>t. printed_solution (the (production m t))) times,
             operating_values = map (\<lambda>t. printed_solution (the (operating m t))) times,
             start_up_values = map (\<lambda>t. printed_solution (the (start_up m t))) times,
             shut_down_values = map (\<lambda>t. printed_solution (the (shut_down m t))) times\<rparr>)"
  using notebook_valid_input
    C7_reading_never_fails [OF notebook_valid_input notebook_build, of ABNORMAL printed_solution]
  by blast

lemma printed_solution_returned_feasible: "returned notebook_solver FEASIBLE printed_solution"
  using printed_solution_feasible by (simp add: returned_def)

text \<open>
  Claim C7, counterexample: the printed assignment returned with status Feasible is read
  without an objective value, and a result with status NotSolved (the solver holding 0 for
  every variable) is read without any failure.
\<close>

theorem C7_no_unsolved_model_error:
  "returned notebook_solver FEASIBLE printed_solution \<and>
   notebook FEASIBLE printed_solution =
     Inr \<lparr>objective_value = None,
          production_values = [100, 0, 100], operating_values = [1, 0, 1],
          start_up_values = [1, 0, 1], shut_down_values = [0, 1, 0]\<rparr> \<and>
   notebook NOT_SOLVED (\<lambda>_. 0) =
     Inr \<lparr>objective_value = None,
          production_values = [0, 0, 0], operating_values = [0, 0, 0],
          start_up_values = [0, 0, 0], shut_down_values = [0, 0, 0]\<rparr>"
  using printed_solution_returned_feasible
  by (simp add: notebook_interpret objective_output_def printed_solution_def)

section \<open>A second build on the same solver\<close>




























end
